theory Spec2Isabelle
  imports
    Main
    "HOL-Library.Char_ord"
    "HOL-Library.List_Lexorder"
    "HOL-Library.Multiset"
begin

section \<open>JavaScript strings and numbers\<close>

text \<open>
  The sources are browser JavaScript and TypeScript. A JavaScript string is modelled
  as a \<^typ>\<open>string\<close>; the strings the code handles (hex addresses, signatures, keys,
  URLs, decimal numbers) are ASCII, where a character is one code unit. A field that is
  \<open>undefined\<close>, \<open>null\<close> or \<open>''\<close> is falsy in each case, and is modelled by the empty
  string unless the code tells them apart.
\<close>

text \<open>\<open>s.startsWith('0x') ? s.slice(2) : s\<close>\<close>

definition startsWith :: "string \<Rightarrow> string \<Rightarrow> bool" where
  "startsWith s p = (take (length p) s = p)"

definition strip0x :: "string \<Rightarrow> string" where
  "strip0x s = (if startsWith s ''0x'' then drop 2 s else s)"

text \<open>\<open>String.prototype.toLowerCase\<close> on ASCII: \<open>A\<close>..\<open>Z\<close> become \<open>a\<close>..\<open>z\<close>.\<close>

definition lower_char :: "char \<Rightarrow> char" where
  "lower_char c =
     (case map_of (zip ''ABCDEFGHIJKLMNOPQRSTUVWXYZ'' ''abcdefghijklmnopqrstuvwxyz'') c of
        Some l \<Rightarrow> l
      | None \<Rightarrow> c)"

definition toLowerCase :: "string \<Rightarrow> string" where
  "toLowerCase s = map lower_char s"

text \<open>
  A number in a template literal, \<open>`${n}`\<close>, and \<open>n.toString(16)\<close>: the digits of a
  natural number in base 10 and in base 16 (lower case), most significant first.
\<close>

definition digit_char :: "nat \<Rightarrow> char" where
  "digit_char d = (if d < 16 then ''0123456789abcdef'' ! d else CHR ''?'')"

fun digits :: "nat \<Rightarrow> nat \<Rightarrow> string" where
  "digits b n =
     (if b < 2 \<or> n < b then [digit_char n] else digits b (n div b) @ [digit_char (n mod b)])"

declare digits.simps [simp del]

definition toString10 :: "nat \<Rightarrow> string" where
  "toString10 n = digits 10 n"

definition toString16 :: "nat \<Rightarrow> string" where
  "toString16 n = digits 16 n"

text \<open>\<open>s.padStart(n, '0')\<close>\<close>

definition padStart0 :: "nat \<Rightarrow> string \<Rightarrow> string" where
  "padStart0 n s = replicate (n - length s) (CHR ''0'') @ s"

section \<open>The signer address of the browser propose path\<close>

text \<open>
  \<open>getSignerAddress\<close> of \<open>public/send-transactions.js\<close>: the \<open>0x\<close> prefix is removed,
  the key is compared with three literals (each written with \<open>0x\<close> and cut by
  \<open>.slice(2)\<close>), and the last \<open>return\<close> is a literal too.
\<close>

definition known_key_1 :: string where
  "known_key_1 = ''ac0974bec39a17e36ba4a6b4d238ff944bacb478cbed5efcae784d7bf4f2ff80''"

definition known_key_2 :: string where
  "known_key_2 = ''59c6995e998f97a5a0044966f0945389dc9e86dae88c7a8412f4603b6b78690d''"

definition known_key_3 :: string where
  "known_key_3 = ''5de4111afa1a4b94908f83103eb1f1706367c2e68ca870fc3fb9a804cdab365a''"

definition getSignerAddress :: "string \<Rightarrow> string" where
  "getSignerAddress privateKey =
     (let cleanPrivateKey = strip0x privateKey in
      if cleanPrivateKey = drop 2 (''0x'' @ known_key_1)
        then ''0xf39Fd6e51aad88F6F4ce6aB8827279cffFb92266''
      else if cleanPrivateKey = drop 2 (''0x'' @ known_key_2)
        then ''0x70997970C51812dc3A010C7d01b50e0d17dc79C8''
      else if cleanPrivateKey = drop 2 (''0x'' @ known_key_3)
        then ''0x3C44CdDdB6a900fa2b585dd299e03d12FA4293BC''
      else ''0xf39Fd6e51aad88F6F4ce6aB8827279cffFb92266'')"

section \<open>The fallback transaction hash\<close>

text \<open>
  The transaction object that \<open>proposeTransaction\<close> of the TypeScript \<open>SafeManager\<close>
  builds and hands to \<open>proposeTransactionFallback\<close>: \<open>{to, data, value, operation,
  safeTxGas}\<close>.
\<close>

record proposal =
  p_to :: string
  p_data :: string
  p_value :: string
  p_operation :: nat
  p_safeTxGas :: nat

text \<open>
  \<open>ToInt32\<close>, the conversion that \<open><<\<close> and \<open>&\<close> apply to their operands and
  results: the value modulo \<open>2^32\<close>, read as a signed 32-bit integer.
\<close>

definition toInt32 :: "int \<Rightarrow> int" where
  "toInt32 x = (x + 2147483648) mod 4294967296 - 2147483648"

text \<open>
  The loop of \<open>calculateSafeTxHash\<close> (and of \<open>calculateHash\<close>):
  \<open>hash = ((hash << 5) - hash) + char; hash = hash & hash\<close>. The subtraction and the
  addition are on doubles and exact at this size.
\<close>

definition hash_step :: "int \<Rightarrow> char \<Rightarrow> int" where
  "hash_step hash c = toInt32 ((toInt32 (hash * 32) - hash) + of_char c)"

definition simple_hash :: "string \<Rightarrow> int" where
  "simple_hash s = foldl hash_step 0 s"

definition calculateSafeTxHash :: "proposal \<Rightarrow> nat \<Rightarrow> string" where
  "calculateSafeTxHash transaction nonce =
     (let data = p_to transaction @ p_value transaction @ p_data transaction
                 @ toString10 (p_operation transaction) @ toString10 nonce;
          hash = simple_hash data
      in ''0x'' @ padStart0 64 (toString16 (nat \<bar>hash\<bar>)))"

section \<open>Errors, responses and events\<close>

text \<open>
  A thrown \<open>Error\<close> is its message. A rejected promise of a collaborator (the
  network, the RPC node, the ethers library) is an \<open>Inl\<close> result of the function that
  stands for it.
\<close>

datatype error = Error string

fun message :: "error \<Rightarrow> string" where
  "message (Error m) = m"

text \<open>What the code reads of a \<open>fetch\<close> response.\<close>

record response =
  ok :: bool
  status :: nat
  statusText :: string
  body :: string

text \<open>The arguments of \<open>execTransaction\<close> and \<open>getTransactionHash\<close> but the last.\<close>

record exec_params =
  e_to :: string
  e_value :: string
  e_data :: string
  e_operation :: nat
  e_safeTxGas :: nat
  e_baseGas :: nat
  e_gasPrice :: string
  e_gasToken :: string
  e_refundReceiver :: string

text \<open>
  What a run does to the outside, in order: the HTTP requests, the calls to the chain
  through the RPC node, and the two \<open>console.warn\<close> lines of \<open>executeTransaction\<close>
  (\<open>console.log\<close> and \<open>console.error\<close> are not recorded).
\<close>

datatype event =
    Fetch string string
  | WarnSkipSignature nat string
  | WarnGasEstimationFailed string
  | CallNonce
  | CallGetTransactionHash exec_params nat
  | CallEstimateGas exec_params string
  | CallExecTransaction exec_params string nat
  | CallWait string

fun is_chain_call :: "event \<Rightarrow> bool" where
  "is_chain_call CallNonce = True"
| "is_chain_call (CallGetTransactionHash p n) = True"
| "is_chain_call (CallEstimateGas p s) = True"
| "is_chain_call (CallExecTransaction p s g) = True"
| "is_chain_call (CallWait h) = True"
| "is_chain_call e = False"

section \<open>Signature aggregation\<close>

text \<open>A confirmation as the transaction service returns it; the code reads two fields.\<close>

record confirmation =
  owner :: string
  signature :: string

text \<open>
  \<open>a.localeCompare(b)\<close> is called with no locale, so the collation of the host (the
  browser's default locale) decides, and the comparison is a parameter of everything
  that sorts: a function that returns a negative number, zero or a positive number.
  Two hosts are written out, each for the strings that \<open>toLowerCase\<close> leaves of a hex
  address, that is digits and the letters \<open>a\<close> to \<open>f\<close> and \<open>x\<close>.

  In most locales (English, German, Swedish, the root collation) such strings are
  ordered by their characters from the left, digits before letters, a proper prefix
  first: the order of the code units.
\<close>

definition code_unit_compare :: "string \<Rightarrow> string \<Rightarrow> int" where
  "code_unit_compare a b = (if a < b then - 1 else if a = b then 0 else 1)"

text \<open>
  In the Danish and Norwegian collations the pair \<open>aa\<close> is a contraction that sorts as
  the letter a with a ring, after \<open>z\<close>. A string is compared by its collation elements: one
  element above all letters for each \<open>aa\<close>, read from the left, and the character
  itself otherwise.
\<close>

fun danish_key :: "string \<Rightarrow> nat list" where
  "danish_key (a # b # s) =
     (if a = CHR ''a'' \<and> b = CHR ''a'' then 256 # danish_key s
      else of_char a # danish_key (b # s))"
| "danish_key [a] = [of_char a]"
| "danish_key [] = []"

definition danish_compare :: "string \<Rightarrow> string \<Rightarrow> int" where
  "danish_compare a b =
     (if danish_key a < danish_key b then - 1 else if danish_key a = danish_key b then 0 else 1)"

text \<open>
  \<open>Array.prototype.sort\<close> with a comparator. The sort is stable, and with a consistent
  comparator its result is the one arrangement that insertion from the right computes.
\<close>

fun insert_by :: "('a \<Rightarrow> 'a \<Rightarrow> int) \<Rightarrow> 'a \<Rightarrow> 'a list \<Rightarrow> 'a list" where
  "insert_by cmp x [] = [x]"
| "insert_by cmp x (y # ys) =
     (if cmp x y \<le> 0 then x # y # ys else y # insert_by cmp x ys)"

definition array_sort :: "('a \<Rightarrow> 'a \<Rightarrow> int) \<Rightarrow> 'a list \<Rightarrow> 'a list" where
  "array_sort cmp xs = foldr (insert_by cmp) xs []"

definition compare_owner ::
  "(string \<Rightarrow> string \<Rightarrow> int) \<Rightarrow> confirmation \<Rightarrow> confirmation \<Rightarrow> int" where
  "compare_owner collate a b = collate (toLowerCase (owner a)) (toLowerCase (owner b))"

text \<open>
  The \<open>for\<close> loop of \<open>executeTransaction\<close> over the sorted confirmations: a signature
  of 130 characters after its \<open>0x\<close> is appended, any other is skipped with a
  \<open>console.warn\<close>.
\<close>

fun signatures_loop :: "string \<Rightarrow> confirmation list \<Rightarrow> string \<times> event list" where
  "signatures_loop signatures [] = (signatures, [])"
| "signatures_loop signatures (c # cs) =
     (let sig = strip0x (signature c) in
      if length sig = 130 then signatures_loop (signatures @ sig) cs
      else (case signatures_loop signatures cs of
              (s, warnings) \<Rightarrow> (s, WarnSkipSignature (length sig) (owner c) # warnings)))"

text \<open>
  ``Build correct signature data'' of \<open>SafeClient.executeTransaction\<close>
  (\<open>public/app.js\<close>): filter, sort, concatenate. The first argument is the host's
  \<open>localeCompare\<close>.
\<close>

definition buildSignatures ::
  "(string \<Rightarrow> string \<Rightarrow> int) \<Rightarrow> confirmation list \<Rightarrow> string \<times> event list" where
  "buildSignatures collate confirmations =
     (let validConfirmations = filter (\<lambda>c. signature c \<noteq> [] \<and> owner c \<noteq> []) confirmations
      in signatures_loop ''0x'' (array_sort (compare_owner collate) validConfirmations))"

section \<open>Executing a transaction\<close>

text \<open>
  The JSON object of \<open>GET api/v1/multisig-transactions/{safeTxHash}/\<close>, as far as
  \<open>executeTransaction\<close> reads it. \<open>confirmationsRequired\<close> and \<open>confirmations\<close>
  may be missing.
\<close>

record txData =
  confirmationsRequired :: "nat option"
  confirmations :: "confirmation list option"
  isExecuted :: bool
  tx_to :: string
  tx_value :: string
  tx_data :: string
  tx_operation :: nat
  tx_safeTxGas :: nat
  tx_baseGas :: nat
  tx_gasPrice :: string
  tx_gasToken :: string
  tx_refundReceiver :: string

text \<open>
  \<open>txData.confirmations || []\<close> and \<open>txData.confirmationsRequired || 1\<close>; the
  count \<open>txData.confirmations ? txData.confirmations.length : 0\<close> is the length of the
  former.
\<close>

definition confirmations_of :: "txData \<Rightarrow> confirmation list" where
  "confirmations_of t = (case confirmations t of None \<Rightarrow> [] | Some cs \<Rightarrow> cs)"

definition required_of :: "txData \<Rightarrow> nat" where
  "required_of t =
     (case confirmationsRequired t of None \<Rightarrow> 1 | Some n \<Rightarrow> if n = 0 then 1 else n)"

text \<open>\<open>new SafeClient(config)\<close>: the fields and the base URL, made to end with a slash.\<close>

record client =
  baseUrl :: string
  safeAddress :: string
  rpcUrl :: string
  privateKey :: string

definition endsWith_slash :: "string \<Rightarrow> bool" where
  "endsWith_slash s = (s \<noteq> [] \<and> last s = CHR ''/'')"

definition SafeClient :: "string \<Rightarrow> string \<Rightarrow> string \<Rightarrow> string \<Rightarrow> client" where
  "SafeClient txServiceUrl safeAddr rpc key =
     \<lparr>baseUrl = (if txServiceUrl \<noteq> [] \<and> \<not> endsWith_slash txServiceUrl
                 then txServiceUrl @ ''/'' else txServiceUrl),
      safeAddress = safeAddr, rpcUrl = rpc, privateKey = key\<rparr>"

text \<open>
  The collaborators of one run of \<open>executeTransaction\<close>: the transaction service
  (\<open>fetch\<close> and \<open>response.json()\<close>), the host's collation, the ethers wallet, and
  the Safe contract behind the RPC node.
\<close>

record exec_env =
  localeCompare :: "string \<Rightarrow> string \<Rightarrow> int"
  fetch_tx :: "string \<Rightarrow> error + response"
  json_tx :: "response \<Rightarrow> error + txData"
  new_Wallet :: "string \<Rightarrow> error + string"
  nonce_call :: "error + nat"
  getTransactionHash_call :: "exec_params \<Rightarrow> nat \<Rightarrow> error + string"
  estimateGas_call :: "exec_params \<Rightarrow> string \<Rightarrow> error + nat"
  execTransaction_call :: "exec_params \<Rightarrow> string \<Rightarrow> nat \<Rightarrow> error + string"
  wait_call :: "string \<Rightarrow> error + nat"

record exec_result =
  success :: bool
  transactionHash :: string
  blockNumber :: nat

text \<open>\<open>x || d\<close> on a string.\<close>

definition or_default :: "string \<Rightarrow> string \<Rightarrow> string" where
  "or_default x d = (if x = [] then d else x)"

text \<open>
  ``Prepare execTransaction parameters''. For the numeric fields \<open>x || 0\<close> and
  \<open>x || '0'\<close> leave the number as it is.
\<close>

definition exec_params_of :: "txData \<Rightarrow> exec_params" where
  "exec_params_of d =
     \<lparr>e_to = tx_to d,
      e_value = or_default (tx_value d) ''0'',
      e_data = or_default (tx_data d) ''0x'',
      e_operation = tx_operation d,
      e_safeTxGas = tx_safeTxGas d,
      e_baseGas = tx_baseGas d,
      e_gasPrice = or_default (tx_gasPrice d) ''0'',
      e_gasToken = or_default (tx_gasToken d) ''0x0000000000000000000000000000000000000000'',
      e_refundReceiver =
        or_default (tx_refundReceiver d) ''0x0000000000000000000000000000000000000000''\<rparr>"

text \<open>
  ``Try to estimate gas first'': the estimate with its 20 percent buffer
  (\<open>gasLimit.mul(120).div(100)\<close> on big numbers), or 500000 when the estimation throws.
\<close>

definition estimate_gasLimit :: "exec_env \<Rightarrow> exec_params \<Rightarrow> string \<Rightarrow> nat \<times> event list" where
  "estimate_gasLimit env p signatures =
     (case estimateGas_call env p signatures of
        Inr gasLimit \<Rightarrow> (gasLimit * 120 div 100, [CallEstimateGas p signatures])
      | Inl gasError \<Rightarrow>
          (500000, [CallEstimateGas p signatures, WarnGasEstimationFailed (message gasError)]))"

text \<open>``Execute transaction'' and ``Wait for transaction confirmation''.\<close>

definition submit ::
  "exec_env \<Rightarrow> exec_params \<Rightarrow> string \<Rightarrow> nat \<Rightarrow> (error + exec_result) \<times> event list" where
  "submit env p signatures gasLimit =
     (case execTransaction_call env p signatures gasLimit of
        Inl e \<Rightarrow> (Inl e, [CallExecTransaction p signatures gasLimit])
      | Inr tx_hash \<Rightarrow>
          (case wait_call env tx_hash of
             Inl e \<Rightarrow> (Inl e, [CallExecTransaction p signatures gasLimit, CallWait tx_hash])
           | Inr block \<Rightarrow>
               (Inr \<lparr>success = True, transactionHash = tx_hash, blockNumber = block\<rparr>,
                [CallExecTransaction p signatures gasLimit, CallWait tx_hash])))"

text \<open>
  The part of \<open>executeTransaction\<close> after its guards: wallet and contract, the Safe's
  nonce, the transaction hash (computed and only logged), the signatures, the gas limit,
  the submission. Making the provider and the contract object is taken to send nothing
  and to succeed; making the wallet fails for a key that ethers rejects.
\<close>

definition execute_on_chain ::
  "exec_env \<Rightarrow> string \<Rightarrow> txData \<Rightarrow> (error + exec_result) \<times> event list" where
  "execute_on_chain env key d =
     (case new_Wallet env key of
        Inl e \<Rightarrow> (Inl e, [])
      | Inr wallet \<Rightarrow>
          (let p = exec_params_of d in
           case nonce_call env of
             Inl e \<Rightarrow> (Inl e, [CallNonce])
           | Inr nonce \<Rightarrow>
               (case getTransactionHash_call env p nonce of
                  Inl e \<Rightarrow> (Inl e, [CallNonce, CallGetTransactionHash p nonce])
                | Inr txHash \<Rightarrow>
                    (case buildSignatures (localeCompare env) (confirmations_of d) of
                       (signatures, warnings) \<Rightarrow>
                         (case estimate_gasLimit env p signatures of
                            (gasLimit, estimation) \<Rightarrow>
                              (case submit env p signatures gasLimit of
                                 (r, submission) \<Rightarrow>
                                   (r, [CallNonce, CallGetTransactionHash p nonce] @ warnings
                                       @ estimation @ submission)))))))"

text \<open>
  \<open>SafeClient.executeTransaction({safeTxHash, privateKey})\<close> of \<open>public/app.js\<close>. The
  \<open>catch\<close> at its end logs and rethrows, so every error leaves as it was thrown.
\<close>

definition transaction_url :: "client \<Rightarrow> string \<Rightarrow> string" where
  "transaction_url this safeTxHash = baseUrl this @ ''api/v1/multisig-transactions/'' @ safeTxHash @ ''/''"

definition executeTransaction ::
  "client \<Rightarrow> exec_env \<Rightarrow> string \<Rightarrow> string \<Rightarrow> (error + exec_result) \<times> event list" where
  "executeTransaction this env safeTxHash key =
     (let url = transaction_url this safeTxHash in
      case fetch_tx env url of
        Inl e \<Rightarrow> (Inl e, [Fetch ''GET'' url])
      | Inr txResponse \<Rightarrow>
          if \<not> ok txResponse
          then (Inl (Error (''Failed to get transaction details: '' @ toString10 (status txResponse))),
                [Fetch ''GET'' url])
          else
            (case json_tx env txResponse of
               Inl e \<Rightarrow> (Inl e, [Fetch ''GET'' url])
             | Inr d \<Rightarrow>
                 (let required = required_of d;
                      confirmationsCount = length (confirmations_of d)
                  in
                  if confirmationsCount < required
                  then (Inl (Error (''Insufficient confirmations: ''
                              @ toString10 confirmationsCount @ ''/'' @ toString10 required)),
                        [Fetch ''GET'' url])
                  else if isExecuted d
                  then (Inl (Error ''Transaction already executed''), [Fetch ''GET'' url])
                  else if rpcUrl this = []
                  then (Inl (Error ''RPC URL not configured''), [Fetch ''GET'' url])
                  else if key = [] \<and> privateKey this = []
                  then (Inl (Error ''Private key not configured''), [Fetch ''GET'' url])
                  else
                    (case execute_on_chain env (or_default key (privateKey this)) d of
                       (r, evs) \<Rightarrow> (r, Fetch ''GET'' url # evs)))))"

text \<open>
  \<open>SafeManager.validateConfiguration\<close> of \<open>public/app.js\<close>, on the three form fields it
  reads, and \<open>connectToSafe\<close>, which makes the only \<open>SafeClient\<close> of the page from the
  form once the validation has passed. The key is checked for its length only.
\<close>

definition validateConfiguration_app :: "string \<Rightarrow> string \<Rightarrow> string \<Rightarrow> bool" where
  "validateConfiguration_app rpc key safeAddr =
     (if rpc = [] then False
      else if key = [] \<or> length key < 64 then False
      else if safeAddr = [] \<or> \<not> startsWith safeAddr ''0x'' then False
      else True)"

definition connected_client :: "string \<Rightarrow> string \<Rightarrow> string \<Rightarrow> string \<Rightarrow> client option" where
  "connected_client txServiceUrl rpc key safeAddr =
     (if \<not> validateConfiguration_app rpc key safeAddr then None
      else Some (SafeClient txServiceUrl safeAddr rpc key))"

definition rejected_key :: string where
  "rejected_key = replicate 64 (CHR ''z'')"

section \<open>Accepted and skipped confirmations\<close>

text \<open>
  What the properties of the signature data are stated with. A confirmation is accepted
  when the filter keeps it and the loop appends its signature; it is skipped when the
  filter keeps it and the loop does not. The entries of a blob are its consecutive
  chunks of 130 characters (65 bytes) after the \<open>0x\<close>.
\<close>

definition accepted :: "confirmation \<Rightarrow> bool" where
  "accepted c =
     (signature c \<noteq> [] \<and> owner c \<noteq> [] \<and> length (strip0x (signature c)) = 130)"

definition skipped :: "confirmation \<Rightarrow> bool" where
  "skipped c =
     (signature c \<noteq> [] \<and> owner c \<noteq> [] \<and> length (strip0x (signature c)) \<noteq> 130)"

fun chunks :: "nat \<Rightarrow> 'a list \<Rightarrow> 'a list list" where
  "chunks n xs = (if n = 0 \<or> xs = [] then [] else take n xs # chunks n (drop n xs))"

declare chunks.simps [simp del]

definition signature_entries :: "string \<Rightarrow> string list" where
  "signature_entries blob = chunks 130 (drop 2 blob)"

text \<open>The confirmations whose signatures reach the blob, in the order they have there.\<close>

definition accepted_sorted ::
  "(string \<Rightarrow> string \<Rightarrow> int) \<Rightarrow> confirmation list \<Rightarrow> confirmation list" where
  "accepted_sorted collate cs =
     filter (\<lambda>c. length (strip0x (signature c)) = 130)
       (array_sort (compare_owner collate)
         (filter (\<lambda>c. signature c \<noteq> [] \<and> owner c \<noteq> []) cs))"

section \<open>Confirming a transaction\<close>

text \<open>\<open>s.startsWith('0x') ? s : '0x' + s\<close>\<close>

definition add0x :: "string \<Rightarrow> string" where
  "add0x s = (if startsWith s ''0x'' then s else ''0x'' @ s)"

text \<open>
  The collaborators of \<open>SafeClient.confirm\<close> (\<open>public/app.js\<close>): the ethers wallet
  made from the key (its address), the signing of the digest by
  \<open>generateSignatureWithWallet\<close>, the \<open>POST\<close> of \<open>{signature, owner}\<close> and
  \<open>response.json()\<close>. \<open>waitForEthers\<close> gives up after 30 seconds, which is a
  failure of the wallet here.
\<close>

record confirm_env =
  c_new_Wallet :: "string \<Rightarrow> error + string"
  c_signDigest :: "string \<Rightarrow> string \<Rightarrow> error + string"
  c_fetch :: "string \<Rightarrow> string \<Rightarrow> string \<Rightarrow> error + response"
  c_json :: "response \<Rightarrow> error + string"

definition confirmations_url :: "client \<Rightarrow> string \<Rightarrow> string" where
  "confirmations_url this safeTxHash =
     baseUrl this @ ''api/v1/multisig-transactions/'' @ safeTxHash @ ''/confirmations/''"

definition sign_with_key :: "confirm_env \<Rightarrow> string \<Rightarrow> string \<Rightarrow> error + string \<times> string" where
  "sign_with_key env key safeTxHash =
     (case c_new_Wallet env (add0x key) of
        Inl e \<Rightarrow> Inl e
      | Inr ownerAddress \<Rightarrow>
          (case c_signDigest env (add0x key) (add0x safeTxHash) of
             Inl e \<Rightarrow> Inl e
           | Inr sig \<Rightarrow> Inr (sig, ownerAddress)))"

definition confirm ::
  "client \<Rightarrow> confirm_env \<Rightarrow> string \<Rightarrow> string \<Rightarrow> (error + string) \<times> event list" where
  "confirm this env safeTxHash key =
     (let url = confirmations_url this safeTxHash in
      if key = [] then (Inl (Error ''No private key provided for confirmation''), [])
      else
        (case sign_with_key env key safeTxHash of
           Inl signError \<Rightarrow>
             (Inl (Error (''Failed to generate signature: '' @ message signError)), [])
         | Inr (sig, ownerAddress) \<Rightarrow>
             (case c_fetch env url sig ownerAddress of
                Inl e \<Rightarrow> (Inl e, [Fetch ''POST'' url])
              | Inr response \<Rightarrow>
                  if \<not> ok response
                  then (Inl (Error (''HTTP error! status: '' @ toString10 (status response)
                              @ '' - '' @ statusText response @ ''. URL: '' @ url)),
                        [Fetch ''POST'' url])
                  else
                    (case c_json env response of
                       Inl e \<Rightarrow> (Inl e, [Fetch ''POST'' url])
                     | Inr data \<Rightarrow> (Inr data, [Fetch ''POST'' url])))))"

section \<open>The TypeScript manager\<close>

text \<open>\<open>SafeConfig\<close> of the TypeScript \<open>SafeManager\<close>.\<close>

record safeConfig =
  c_safeAddress :: string
  c_rpcUrl :: string
  c_chainId :: nat
  c_txServiceUrl :: string
  c_privateKey :: string

text \<open>
  The collaborators of \<open>confirmTransactionFallback\<close>. \<open>generateSignature\<close> first waits
  in a loop, with no limit, until \<open>window.ethers\<close> is there: \<open>ethers_loaded\<close> says
  whether that wait ends, and a run whose wait does not end has no result (\<open>None\<close>).
\<close>

record fallback_env =
  ethers_loaded :: bool
  signMessage :: "string \<Rightarrow> string \<Rightarrow> error + string"
  f_fetch :: "string \<Rightarrow> string \<Rightarrow> error + response"

definition generateSignature :: "fallback_env \<Rightarrow> safeConfig option \<Rightarrow> string \<Rightarrow> (error + string) option" where
  "generateSignature env config safeTxHash =
     (case config of
        None \<Rightarrow> Some (Inl (Error ''Configuration not loaded''))
      | Some cfg \<Rightarrow>
          if ethers_loaded env then Some (signMessage env (c_privateKey cfg) safeTxHash)
          else None)"

definition confirmTransactionFallback ::
  "fallback_env \<Rightarrow> safeConfig option \<Rightarrow> string \<Rightarrow> ((error + unit) \<times> event list) option" where
  "confirmTransactionFallback env config safeTxHash =
     (case config of
        None \<Rightarrow> Some (Inr (), [])
      | Some cfg \<Rightarrow>
          (case generateSignature env config safeTxHash of
             None \<Rightarrow> None
           | Some (Inl e) \<Rightarrow> Some (Inl e, [])
           | Some (Inr sig) \<Rightarrow>
               (let url = c_txServiceUrl cfg @ ''/api/v2/multisig-transactions/'' @ safeTxHash
                          @ ''/confirmations/''
                in case f_fetch env url sig of
                     Inl e \<Rightarrow> Some (Inl e, [Fetch ''POST'' url])
                   | Inr response \<Rightarrow>
                       if \<not> ok response
                       then Some (Inl (Error (''Failed to confirm transaction: ''
                                    @ statusText response @ '' - '' @ body response)),
                                  [Fetch ''POST'' url])
                       else Some (Inr (), [Fetch ''POST'' url]))))"

text \<open>
  The flags that \<open>renderTransactionCard\<close> of the TypeScript manager computes to decide
  which buttons a card gets. The current signer's address comes from viem's
  \<open>privateKeyToAddress\<close> and is a parameter here.
\<close>

definition isConfirmed :: "txData \<Rightarrow> bool" where
  "isConfirmed t = (required_of t \<le> length (confirmations_of t))"

definition hasCurrentSignerConfirmed :: "string \<Rightarrow> txData \<Rightarrow> bool" where
  "hasCurrentSignerConfirmed currentSignerAddress t =
     list_ex (\<lambda>conf. toLowerCase (owner conf) = toLowerCase currentSignerAddress)
       (confirmations_of t)"

definition canConfirm :: "string \<Rightarrow> txData \<Rightarrow> bool" where
  "canConfirm currentSignerAddress t =
     (\<not> isConfirmed t \<and> \<not> isExecuted t \<and> \<not> hasCurrentSignerConfirmed currentSignerAddress t)"

definition canExecute :: "txData \<Rightarrow> bool" where
  "canExecute t = (isConfirmed t \<and> \<not> isExecuted t)"

section \<open>Saving the configuration\<close>

text \<open>
  \<open>localStorage\<close> maps a key to what \<open>JSON.stringify\<close> wrote: an object, kept as its
  fields in order. The form is the \<open>value\<close> of each input element by its id; an id with
  no element makes \<open>document.getElementById(id).value\<close> throw a \<open>TypeError\<close>.
\<close>

datatype jvalue = JString string | JNumber nat

type_synonym storage = "string \<rightharpoonup> (string \<times> jvalue) list"

type_synonym form = "string \<rightharpoonup> string"

text \<open>
  \<open>SafeManager.saveConfiguration\<close> of \<open>public/app.js\<close>. Its \<open>try\<close> has an empty
  \<open>catch\<close>: when an element is missing nothing is stored and nothing is thrown.
\<close>

definition saveConfiguration :: "form \<Rightarrow> storage \<Rightarrow> storage" where
  "saveConfiguration doc localStorage =
     (case doc ''txServiceUrl'' of
        None \<Rightarrow> localStorage
      | Some t \<Rightarrow>
          (case doc ''rpcUrl'' of
             None \<Rightarrow> localStorage
           | Some r \<Rightarrow>
               (case doc ''safeAddress'' of
                  None \<Rightarrow> localStorage
                | Some a \<Rightarrow>
                    localStorage(''safeManagerConfig'' \<mapsto>
                      [(''txServiceUrl'', JString t), (''rpcUrl'', JString r),
                       (''safeAddress'', JString a)]))))"

text \<open>
  \<open>validateConfiguration\<close> of the TypeScript manager: no empty field, the address
  matches \<open>/^0x[a-fA-F0-9]{40}$/\<close>, the key matches \<open>/^0x[a-fA-F0-9]{64}$/\<close>.
\<close>

definition is_hex_char :: "char \<Rightarrow> bool" where
  "is_hex_char c = (c \<in> set ''0123456789abcdefABCDEF'')"

definition matches_0x_hex :: "nat \<Rightarrow> string \<Rightarrow> bool" where
  "matches_0x_hex n s = (startsWith s ''0x'' \<and> length s = n + 2 \<and> list_all is_hex_char (drop 2 s))"

definition validateConfiguration :: "safeConfig \<Rightarrow> bool" where
  "validateConfiguration config =
     (if c_safeAddress config = [] \<or> c_rpcUrl config = [] \<or> c_txServiceUrl config = []
         \<or> c_privateKey config = [] then False
      else if \<not> matches_0x_hex 40 (c_safeAddress config) then False
      else if \<not> matches_0x_hex 64 (c_privateKey config) then False
      else True)"

text \<open>
  \<open>SafeManager.saveConfiguration\<close> of the TypeScript manager: the state it changes is
  \<open>this.config\<close> and \<open>localStorage\<close>. (It goes on to \<open>initializeApp\<close>, which writes
  neither.)
\<close>

record manager =
  config :: "safeConfig option"
  m_localStorage :: storage

definition json_of_config :: "safeConfig \<Rightarrow> (string \<times> jvalue) list" where
  "json_of_config c =
     [(''safeAddress'', JString (c_safeAddress c)), (''rpcUrl'', JString (c_rpcUrl c)),
      (''chainId'', JNumber (c_chainId c)), (''txServiceUrl'', JString (c_txServiceUrl c)),
      (''privateKey'', JString (c_privateKey c))]"

definition saveConfiguration_ts :: "form \<Rightarrow> manager \<Rightarrow> error + manager" where
  "saveConfiguration_ts doc this =
     (case (doc ''safeAddress'', doc ''rpcUrl'', doc ''txServiceUrl'', doc ''privateKey'') of
        (Some a, Some r, Some t, Some k) \<Rightarrow>
          (let c = \<lparr>c_safeAddress = a, c_rpcUrl = r, c_chainId = 11155111,
                    c_txServiceUrl = t, c_privateKey = k\<rparr>
           in if \<not> validateConfiguration c then Inr this
              else Inr (this\<lparr>config := Some c,
                     m_localStorage := (m_localStorage this)(''safeConfig'' \<mapsto> json_of_config c)\<rparr>))
      | _ \<Rightarrow> Inl (Error ''TypeError''))"

section \<open>Sample data\<close>

text \<open>
  Two owners and their well-formed signatures, as the specification abbreviates them
  and with addresses of full length; the owner \<open>0xAA\<close> signs a second time.
\<close>

definition conf_BB :: confirmation where
  "conf_BB = \<lparr>owner = ''0xBB'', signature = ''0x'' @ replicate 130 (CHR ''b'')\<rparr>"

definition conf_AA :: confirmation where
  "conf_AA = \<lparr>owner = ''0xAA'', signature = ''0x'' @ replicate 130 (CHR ''a'')\<rparr>"

definition conf_low :: confirmation where
  "conf_low = \<lparr>owner = ''0xaa00000000000000000000000000000000000001'',
                signature = ''0x'' @ replicate 130 (CHR ''a'')\<rparr>"

definition conf_high :: confirmation where
  "conf_high = \<lparr>owner = ''0xbb00000000000000000000000000000000000002'',
                 signature = ''0x'' @ replicate 130 (CHR ''b'')\<rparr>"

definition conf_AA_again :: confirmation where
  "conf_AA_again = \<lparr>owner = ''0xAA'', signature = ''0x'' @ replicate 130 (CHR ''c'')\<rparr>"

text \<open>
  A transaction with threshold 2 and both confirmations, the same already executed, and
  the same with one confirmation; a transaction service that answers with it, a host
  with the code-unit collation, a chain whose gas estimation fails while everything
  else succeeds, and a client.
\<close>

definition ok_response :: response where
  "ok_response = \<lparr>ok = True, status = 200, statusText = ''OK'', body = []\<rparr>"

definition sample_tx :: txData where
  "sample_tx =
     \<lparr>confirmationsRequired = Some 2, confirmations = Some [conf_BB, conf_AA],
      isExecuted = False, tx_to = ''0x4739680F1A3F6aE7E0036979E6A81D76Fd2EE6e3'',
      tx_value = ''0'', tx_data = ''0xa9059cbb'', tx_operation = 0, tx_safeTxGas = 0,
      tx_baseGas = 0, tx_gasPrice = ''0'', tx_gasToken = [], tx_refundReceiver = []\<rparr>"

definition sample_env :: "txData \<Rightarrow> exec_env" where
  "sample_env d =
     \<lparr>localeCompare = code_unit_compare,
      fetch_tx = (\<lambda>url. Inr ok_response),
      json_tx = (\<lambda>r. Inr d),
      new_Wallet = (\<lambda>k. Inr ''0xf39Fd6e51aad88F6F4ce6aB8827279cffFb92266''),
      nonce_call = Inr 5,
      getTransactionHash_call = (\<lambda>p n. Inr ''0x5afe''),
      estimateGas_call = (\<lambda>p s. Inl (Error ''cannot estimate gas'')),
      execTransaction_call = (\<lambda>p s g. Inr ''0x7c''),
      wait_call = (\<lambda>h. Inr 7)\<rparr>"

definition sample_client :: "string \<Rightarrow> client" where
  "sample_client rpc = SafeClient ''http://localhost:8000'' ''0x5afe000000000000000000000000000000000001'' rpc []"

text \<open>
  A private key in the form ethers takes, one of the 64 characters the validation of the
  page asks for that is no hexadecimal number, and a wallet constructor that, as the
  one of ethers, takes 32 bytes in hexadecimal and throws on anything else.
\<close>

definition valid_key :: string where
  "valid_key = ''0xac0974bec39a17e36ba4a6b4d238ff944bacb478cbed5efcae784d7bf4f2ff80''"

definition sample_wallet :: "string \<Rightarrow> error + string" where
  "sample_wallet k =
     (if length (strip0x k) = 64 \<and> list_all is_hex_char (strip0x k)
      then Inr ''0xf39Fd6e51aad88F6F4ce6aB8827279cffFb92266''
      else Inl (Error ''invalid private key''))"

definition executed_tx :: txData where
  "executed_tx = sample_tx\<lparr>isExecuted := True\<rparr>"

definition unconfirmed_tx :: txData where
  "unconfirmed_tx = sample_tx\<lparr>confirmations := Some [conf_BB]\<rparr>"

text \<open>
  A response that is not 2xx, the collaborators of the two confirmation paths, all
  succeeding up to a given response, and a configuration of the TypeScript manager.
\<close>

definition bad_request :: "string \<Rightarrow> response" where
  "bad_request b = \<lparr>ok = False, status = 400, statusText = ''Bad Request'', body = b\<rparr>"

definition sample_confirm_env :: "response \<Rightarrow> confirm_env" where
  "sample_confirm_env r =
     \<lparr>c_new_Wallet = (\<lambda>k. Inr ''0xf39Fd6e51aad88F6F4ce6aB8827279cffFb92266''),
      c_signDigest = (\<lambda>k h. Inr (''0x'' @ replicate 130 (CHR ''1''))),
      c_fetch = (\<lambda>u s a. Inr r),
      c_json = (\<lambda>r. Inr (body r))\<rparr>"

definition sample_fallback_env :: "response \<Rightarrow> fallback_env" where
  "sample_fallback_env r =
     \<lparr>ethers_loaded = True,
      signMessage = (\<lambda>k h. Inr (''0x'' @ replicate 130 (CHR ''1''))),
      f_fetch = (\<lambda>u s. Inr r)\<rparr>"

definition sample_config :: safeConfig where
  "sample_config =
     \<lparr>c_safeAddress = ''0x5afe000000000000000000000000000000000001'',
      c_rpcUrl = ''http://localhost:8545'', c_chainId = 11155111,
      c_txServiceUrl = ''http://localhost:8000'',
      c_privateKey = ''0x'' @ known_key_2\<rparr>"

text \<open>
  A proposal as \<open>proposeTransaction\<close> builds it, and a configuration form filled in
  with valid values.
\<close>

definition sample_proposal :: proposal where
  "sample_proposal =
     \<lparr>p_to = ''0x4739680F1A3F6aE7E0036979E6A81D76Fd2EE6e3'', p_data = ''0xa9059cbb'',
      p_value = ''0'', p_operation = 0, p_safeTxGas = 100000\<rparr>"

definition sample_form :: form where
  "sample_form =
     [''safeAddress'' \<mapsto> ''0x5afe000000000000000000000000000000000001'',
      ''rpcUrl'' \<mapsto> ''http://localhost:8545'',
      ''txServiceUrl'' \<mapsto> ''http://localhost:8000'',
      ''privateKey'' \<mapsto> ''0x'' @ known_key_2]"

section \<open>Properties\<close>

lemma strip0x_0x [simp]: "strip0x (CHR ''0'' # CHR ''x'' # s) = s"
  by (simp add: strip0x_def startsWith_def)

text \<open>
  C10. In the browser propose path \<open>getSignerAddress\<close> derives nothing: a private key
  that, with its \<open>0x\<close> prefix removed, is none of the three literal test keys is mapped
  to the fixed address \<open>0xf39Fd6e51aad88F6F4ce6aB8827279cffFb92266\<close>, so any two such
  keys, however different, are given the same sender.
\<close>

theorem getSignerAddress_unknown_key:
  assumes "strip0x k1 \<notin> {known_key_1, known_key_2, known_key_3}"
    and "strip0x k2 \<notin> {known_key_1, known_key_2, known_key_3}"
  shows "getSignerAddress k1 = ''0xf39Fd6e51aad88F6F4ce6aB8827279cffFb92266''
    \<and> getSignerAddress k2 = getSignerAddress k1"
  using assms by (simp add: getSignerAddress_def Let_def)

theorem getSignerAddress_unknown_key_witness:
  "strip0x ''0x01'' \<notin> {known_key_1, known_key_2, known_key_3}
   \<and> strip0x ''02'' \<notin> {known_key_1, known_key_2, known_key_3}
   \<and> ''0x01'' \<noteq> ''02''
   \<and> getSignerAddress ''0x01'' = ''0xf39Fd6e51aad88F6F4ce6aB8827279cffFb92266''
   \<and> getSignerAddress ''02'' = getSignerAddress ''0x01''"
proof -
  have a: "strip0x ''0x01'' \<notin> {known_key_1, known_key_2, known_key_3}"
    by (simp add: strip0x_def startsWith_def known_key_1_def known_key_2_def known_key_3_def)
  have b: "strip0x ''02'' \<notin> {known_key_1, known_key_2, known_key_3}"
    by (simp add: strip0x_def startsWith_def known_key_1_def known_key_2_def known_key_3_def)
  show ?thesis
    using a b getSignerAddress_unknown_key [OF a b] by simp
qed

subsection \<open>Signature aggregation\<close>

lemma mset_insert_by: "mset (insert_by cmp x ys) = add_mset x (mset ys)"
  by (induction ys) simp_all

text \<open>Whatever the comparator, the sort rearranges and neither drops nor adds.\<close>

lemma mset_array_sort: "mset (array_sort cmp xs) = mset xs"
  by (induction xs) (simp_all add: array_sort_def mset_insert_by)

lemma compare_owner_le:
  "compare_owner code_unit_compare a b \<le> 0
     \<longleftrightarrow> toLowerCase (owner a) \<le> toLowerCase (owner b)"
  by (auto simp: compare_owner_def code_unit_compare_def)

lemma insert_by_insort:
  "insert_by (compare_owner code_unit_compare) x ys
     = insort_key (\<lambda>c. toLowerCase (owner c)) x ys"
  by (induction ys) (simp_all add: compare_owner_le)

text \<open>
  On a host with the code-unit collation the comparator sort is the library's stable
  sort by the lower-cased owner.
\<close>

lemma array_sort_sort_key:
  "array_sort (compare_owner code_unit_compare) xs = sort_key (\<lambda>c. toLowerCase (owner c)) xs"
proof -
  have "insert_by (compare_owner code_unit_compare) = insort_key (\<lambda>c. toLowerCase (owner c))"
    by (intro ext) (rule insert_by_insort)
  then show ?thesis by (simp add: array_sort_def sort_key_def)
qed

lemma signatures_loop_eq:
  "signatures_loop acc cs =
     (acc @ concat (map (\<lambda>c. strip0x (signature c))
                     (filter (\<lambda>c. length (strip0x (signature c)) = 130) cs)),
      map (\<lambda>c. WarnSkipSignature (length (strip0x (signature c))) (owner c))
        (filter (\<lambda>c. length (strip0x (signature c)) \<noteq> 130) cs))"
  by (induction cs arbitrary: acc) (simp_all add: Let_def)

lemma buildSignatures_fst:
  "fst (buildSignatures collate cs) =
     ''0x'' @ concat (map (\<lambda>c. strip0x (signature c)) (accepted_sorted collate cs))"
  by (simp add: buildSignatures_def Let_def signatures_loop_eq accepted_sorted_def)

lemma mset_accepted_sorted:
  "mset (accepted_sorted collate cs) = mset (filter accepted cs)"
proof -
  have "mset (accepted_sorted collate cs) =
      filter_mset (\<lambda>c. length (strip0x (signature c)) = 130)
        (filter_mset (\<lambda>c. signature c \<noteq> [] \<and> owner c \<noteq> []) (mset cs))"
    by (simp add: accepted_sorted_def mset_array_sort)
  also have "\<dots> = filter_mset accepted (mset cs)"
    by (rule multiset_eqI) (auto simp: accepted_def)
  finally show ?thesis by simp
qed

lemma sorted_accepted_sorted:
  "sorted (map (\<lambda>c. toLowerCase (owner c)) (accepted_sorted code_unit_compare cs))"
  unfolding accepted_sorted_def array_sort_sort_key by (rule sorted_filter) simp

lemma accepted_sorted_length:
  "c \<in> set (accepted_sorted collate cs) \<Longrightarrow> length (strip0x (signature c)) = 130"
  by (simp add: accepted_sorted_def)

lemma chunks_concat:
  "0 < n \<Longrightarrow> \<forall>s\<in>set ss. length s = n \<Longrightarrow> chunks n (concat ss) = ss"
proof (induction ss)
  case Nil
  then show ?case by (simp add: chunks.simps)
next
  case (Cons s ss)
  then have "s \<noteq> []" by auto
  with Cons show ?case by (subst chunks.simps) simp
qed

lemma length_concat_const:
  "\<forall>s\<in>set ss. length s = n \<Longrightarrow> length (concat ss) = n * length ss"
  by (induction ss) simp_all

lemma length_buildSignatures:
  "length (fst (buildSignatures collate cs)) = 2 + 130 * length (filter accepted cs)"
proof -
  have "length (concat (map (\<lambda>c. strip0x (signature c)) (accepted_sorted collate cs)))
      = 130 * length (map (\<lambda>c. strip0x (signature c)) (accepted_sorted collate cs))"
    by (rule length_concat_const) (auto simp: accepted_sorted_length)
  moreover have "length (accepted_sorted collate cs) = length (filter accepted cs)"
    using mset_accepted_sorted [of collate cs] by (metis size_mset)
  ultimately show ?thesis by (simp add: buildSignatures_fst)
qed

lemma warnings_buildSignatures:
  "mset (snd (buildSignatures collate cs)) =
     mset (map (\<lambda>c. WarnSkipSignature (length (strip0x (signature c))) (owner c))
            (filter skipped cs))"
proof -
  let ?w = "\<lambda>c. WarnSkipSignature (length (strip0x (signature c))) (owner c)"
  let ?bad = "filter (\<lambda>c. length (strip0x (signature c)) \<noteq> 130)
     (array_sort (compare_owner collate)
       (filter (\<lambda>c. signature c \<noteq> [] \<and> owner c \<noteq> []) cs))"
  have h1: "snd (buildSignatures collate cs) = map ?w ?bad"
    by (simp add: buildSignatures_def Let_def signatures_loop_eq)
  have h2: "mset ?bad = mset (filter skipped cs)"
  proof -
    have "mset ?bad = filter_mset (\<lambda>c. length (strip0x (signature c)) \<noteq> 130)
        (filter_mset (\<lambda>c. signature c \<noteq> [] \<and> owner c \<noteq> []) (mset cs))"
      by (simp add: mset_array_sort)
    also have "\<dots> = filter_mset skipped (mset cs)"
      by (rule multiset_eqI) (auto simp: skipped_def)
    finally show ?thesis by simp
  qed
  show ?thesis by (simp only: h1 mset_map h2)
qed

text \<open>
  On a host with the code-unit collation the signature data is \<open>0x\<close> followed by the
  signatures (without their \<open>0x\<close>) of exactly the accepted confirmations, arranged so
  that the owners, compared as lower-cased strings, ascend; and in scenario A of the
  specification, with confirmations from \<open>0xBB\<close>, then \<open>0xAA\<close>, the signature of
  \<open>0xAA\<close> comes first.
\<close>

lemma signatures_ascending_on_code_unit_host:
  "\<exists>ys. fst (buildSignatures code_unit_compare cs)
          = ''0x'' @ concat (map (\<lambda>c. strip0x (signature c)) ys)
      \<and> mset ys = mset (filter accepted cs)
      \<and> sorted (map (\<lambda>c. toLowerCase (owner c)) ys)"
  using buildSignatures_fst mset_accepted_sorted sorted_accepted_sorted by blast

lemma scenario_A_on_code_unit_host:
  "buildSignatures code_unit_compare [conf_BB, conf_AA]
     = (''0x'' @ replicate 130 (CHR ''a'') @ replicate 130 (CHR ''b''), [])"
  by (simp add: conf_BB_def conf_AA_def buildSignatures_def array_sort_def compare_owner_def
      code_unit_compare_def toLowerCase_def lower_char_def)

lemma lower_owners:
  "toLowerCase (owner conf_AA) = ''0xaa''" "toLowerCase (owner conf_BB) = ''0xbb''"
  "toLowerCase (owner conf_low) = ''0xaa00000000000000000000000000000000000001''"
  "toLowerCase (owner conf_high) = ''0xbb00000000000000000000000000000000000002''"
  by (simp_all add: conf_AA_def conf_BB_def conf_low_def conf_high_def toLowerCase_def
      lower_char_def)

lemma danish_compare_owners:
  "danish_compare ''0xbb'' ''0xaa'' = - 1"
  "danish_compare ''0xbb00000000000000000000000000000000000002''
     ''0xaa00000000000000000000000000000000000001'' = - 1"
  by (simp_all add: danish_compare_def)

text \<open>
  C2 does not hold of the code on every host. The owner \<open>0xAA\<close> is below \<open>0xBB\<close> as
  an address and as a lower-cased string, and so is \<open>0xaa00..01\<close> below \<open>0xbb00..02\<close>;
  but with the Danish collation \<open>localeCompare\<close> puts \<open>aa\<close> after \<open>bb\<close>, and the sort
  leaves the signature of the higher owner in front.
\<close>

theorem danish_collation_reverses_owner_order:
  "toLowerCase (owner conf_AA) < toLowerCase (owner conf_BB)
   \<and> buildSignatures danish_compare [conf_BB, conf_AA]
       = (''0x'' @ replicate 130 (CHR ''b'') @ replicate 130 (CHR ''a''), [])
   \<and> toLowerCase (owner conf_low) < toLowerCase (owner conf_high)
   \<and> buildSignatures danish_compare [conf_high, conf_low]
       = (''0x'' @ replicate 130 (CHR ''b'') @ replicate 130 (CHR ''a''), [])"
proof -
  have "buildSignatures danish_compare [conf_BB, conf_AA]
       = (''0x'' @ replicate 130 (CHR ''b'') @ replicate 130 (CHR ''a''), [])"
    by (simp add: buildSignatures_def array_sort_def compare_owner_def lower_owners
        danish_compare_owners) (simp add: conf_BB_def conf_AA_def)
  moreover have "buildSignatures danish_compare [conf_high, conf_low]
       = (''0x'' @ replicate 130 (CHR ''b'') @ replicate 130 (CHR ''a''), [])"
    by (simp add: buildSignatures_def array_sort_def compare_owner_def lower_owners
        danish_compare_owners) (simp add: conf_high_def conf_low_def)
  ultimately show ?thesis
    by (simp add: lower_owners)
qed

text \<open>
  C3, as stated, fails: nothing removes a second confirmation of an owner. The owner
  \<open>0xAA\<close> confirms twice, and the blob has two entries for it.
\<close>

theorem same_owner_twice_counterexample:
  "owner conf_AA = owner conf_AA_again
   \<and> signature_entries (fst (buildSignatures code_unit_compare [conf_AA, conf_AA_again]))
       = [replicate 130 (CHR ''a''), replicate 130 (CHR ''c'')]"
proof -
  have "buildSignatures code_unit_compare [conf_AA, conf_AA_again]
      = (''0x'' @ concat [replicate 130 (CHR ''a''), replicate 130 (CHR ''c'')], [])"
    by (simp add: conf_AA_def conf_AA_again_def buildSignatures_def array_sort_def
        compare_owner_def code_unit_compare_def toLowerCase_def lower_char_def)
  moreover have "chunks 130 (concat [replicate 130 (CHR ''a''), replicate 130 (CHR ''c'')])
      = [replicate 130 (CHR ''a''), replicate 130 (CHR ''c'')]"
    by (rule chunks_concat) simp_all
  ultimately show ?thesis
    by (simp add: signature_entries_def conf_AA_def conf_AA_again_def)
qed

text \<open>
  C3, amended. The aggregation keeps one entry for each accepted confirmation, not one
  for each owner: the entries of the blob are, as a multiset, the signatures of the
  accepted confirmations, each as often as it was confirmed.
\<close>

theorem one_entry_per_accepted_confirmation:
  "mset (signature_entries (fst (buildSignatures collate cs)))
     = mset (map (\<lambda>c. strip0x (signature c)) (filter accepted cs))"
proof -
  have "signature_entries (fst (buildSignatures collate cs))
      = map (\<lambda>c. strip0x (signature c)) (accepted_sorted collate cs)"
    unfolding signature_entries_def buildSignatures_fst
    by (simp add: chunks_concat accepted_sorted_length)
  then show ?thesis
    by (simp only: mset_map mset_accepted_sorted)
qed

text \<open>
  C5, as stated, fails twice. A confirmation with no signature is dropped by the
  filter, before the loop, and nothing is warned. And the loop tests the length only:
  130 characters that are no hex digits are taken into the blob.
\<close>

theorem malformed_signature_counterexample:
  "buildSignatures code_unit_compare [\<lparr>owner = ''0xaa'', signature = []\<rparr>] = (''0x'', [])
   \<and> buildSignatures code_unit_compare
         [\<lparr>owner = ''0xaa'', signature = ''0x'' @ replicate 130 (CHR ''z'')\<rparr>]
       = (''0x'' @ replicate 130 (CHR ''z''), [])"
  by (simp add: buildSignatures_def array_sort_def)

text \<open>
  C5, amended. The aggregation never aborts. A confirmation with an owner and a
  signature whose signature is not 130 characters long after its \<open>0x\<close> is left out with
  one warning; the blob is \<open>0x\<close> and 130 characters, that is 65 bytes, for each
  accepted confirmation.
\<close>

theorem wrong_length_skipped_with_warning:
  "length (fst (buildSignatures collate cs)) = 2 + 130 * length (filter accepted cs)
   \<and> (length (fst (buildSignatures collate cs)) - 2) div 2 = 65 * length (filter accepted cs)
   \<and> mset (snd (buildSignatures collate cs)) =
       mset (map (\<lambda>c. WarnSkipSignature (length (strip0x (signature c))) (owner c))
              (filter skipped cs))"
  by (simp add: length_buildSignatures warnings_buildSignatures)

subsection \<open>Execution\<close>

lemma sample_facts:
  "required_of sample_tx = 2" "length (confirmations_of sample_tx) = 2" "\<not> isExecuted sample_tx"
  "required_of executed_tx = 2" "length (confirmations_of executed_tx) = 2" "isExecuted executed_tx"
  "required_of unconfirmed_tx = 2" "length (confirmations_of unconfirmed_tx) = 1"
  by (simp_all add: sample_tx_def executed_tx_def unconfirmed_tx_def required_of_def
      confirmations_of_def)

lemma sample_env_facts:
  "localeCompare (sample_env d) = code_unit_compare"
  "fetch_tx (sample_env d) u = Inr ok_response" "ok ok_response" "json_tx (sample_env d) r = Inr d"
  "new_Wallet (sample_env d) k = Inr ''0xf39Fd6e51aad88F6F4ce6aB8827279cffFb92266''"
  "nonce_call (sample_env d) = Inr 5"
  "getTransactionHash_call (sample_env d) p n = Inr ''0x5afe''"
  "estimateGas_call (sample_env d) p s = Inl (Error ''cannot estimate gas'')"
  "execTransaction_call (sample_env d) p s g = Inr ''0x7c''"
  "wait_call (sample_env d) t = Inr 7"
  by (simp_all add: sample_env_def ok_response_def)

lemma sample_client_facts:
  "rpcUrl (sample_client rpc) = rpc" "privateKey (sample_client rpc) = []"
  "baseUrl (sample_client rpc) = ''http://localhost:8000/''"
  by (simp_all add: sample_client_def SafeClient_def endsWith_slash_def)

lemma not_chain_buildSignatures:
  "\<not> list_ex is_chain_call (snd (buildSignatures collate cs))"
  by (simp add: buildSignatures_def Let_def signatures_loop_eq list_ex_iff)

lemma executeTransaction_insufficient:
  assumes "fetch_tx env (transaction_url this h) = Inr r" and "ok r" and "json_tx env r = Inr d"
    and "length (confirmations_of d) < required_of d"
  shows "executeTransaction this env h key =
      (Inl (Error (''Insufficient confirmations: '' @ toString10 (length (confirmations_of d))
          @ ''/'' @ toString10 (required_of d))), [Fetch ''GET'' (transaction_url this h)])"
  using assms by (simp add: executeTransaction_def Let_def)

lemma executeTransaction_executed:
  assumes "fetch_tx env (transaction_url this h) = Inr r" and "ok r" and "json_tx env r = Inr d"
    and "required_of d \<le> length (confirmations_of d)" and "isExecuted d"
  shows "executeTransaction this env h key =
      (Inl (Error ''Transaction already executed''), [Fetch ''GET'' (transaction_url this h)])"
  using assms by (simp add: executeTransaction_def Let_def)

lemma executeTransaction_guards_passed:
  assumes "fetch_tx env (transaction_url this h) = Inr r" and "ok r" and "json_tx env r = Inr d"
    and "required_of d \<le> length (confirmations_of d)" and "\<not> isExecuted d"
    and "rpcUrl this \<noteq> []" and "key \<noteq> [] \<or> privateKey this \<noteq> []"
  shows "executeTransaction this env h key =
      (fst (execute_on_chain env (or_default key (privateKey this)) d),
       Fetch ''GET'' (transaction_url this h)
         # snd (execute_on_chain env (or_default key (privateKey this)) d))"
  using assms by (auto simp add: executeTransaction_def Let_def split: prod.splits)

lemma execute_on_chain_nonce:
  assumes "new_Wallet env k = Inr w"
  shows "CallNonce \<in> set (snd (execute_on_chain env k d))"
  using assms by (simp add: execute_on_chain_def Let_def split: sum.splits prod.splits)

lemma execute_on_chain_estimated:
  assumes "new_Wallet env k = Inr w" and "nonce_call env = Inr n"
    and "getTransactionHash_call env (exec_params_of d) n = Inr th"
    and "p = exec_params_of d" and "s = fst (buildSignatures (localeCompare env) (confirmations_of d))"
    and "g = fst (estimate_gasLimit env p s)"
  shows "execute_on_chain env k d =
     (fst (submit env p s g),
      [CallNonce, CallGetTransactionHash p n] @ snd (buildSignatures (localeCompare env) (confirmations_of d))
        @ snd (estimate_gasLimit env p s) @ snd (submit env p s g))"
  using assms by (simp add: execute_on_chain_def Let_def split: prod.splits)

lemma submit_calls: "CallExecTransaction p s g \<in> set (snd (submit env p s g))"
  by (simp add: submit_def split: sum.splits)

lemma submit_success:
  "execTransaction_call env p s g = Inr t \<Longrightarrow> wait_call env t = Inr b \<Longrightarrow>
   fst (submit env p s g) = Inr \<lparr>success = True, transactionHash = t, blockNumber = b\<rparr>"
  by (simp add: submit_def)

lemma estimate_fail: "estimateGas_call env p s = Inl e \<Longrightarrow> fst (estimate_gasLimit env p s) = 500000"
  by (simp add: estimate_gasLimit_def)

lemma estimate_ok: "estimateGas_call env p s = Inr g \<Longrightarrow> fst (estimate_gasLimit env p s) = g * 120 div 100"
  by (simp add: estimate_gasLimit_def)

lemma executeTransaction_no_rpc:
  assumes "fetch_tx env (transaction_url this h) = Inr r" and "ok r" and "json_tx env r = Inr d"
    and "required_of d \<le> length (confirmations_of d)" and "\<not> isExecuted d"
    and "rpcUrl this = []"
  shows "executeTransaction this env h key =
      (Inl (Error ''RPC URL not configured''), [Fetch ''GET'' (transaction_url this h)])"
  using assms by (simp add: executeTransaction_def Let_def)

lemma executeTransaction_no_key:
  assumes "fetch_tx env (transaction_url this h) = Inr r" and "ok r" and "json_tx env r = Inr d"
    and "required_of d \<le> length (confirmations_of d)" and "\<not> isExecuted d"
    and "rpcUrl this \<noteq> []" and "key = []" and "privateKey this = []"
  shows "executeTransaction this env h key =
      (Inl (Error ''Private key not configured''), [Fetch ''GET'' (transaction_url this h)])"
  using assms by (simp add: executeTransaction_def Let_def)

lemma execute_on_chain_wallet_rejected:
  "new_Wallet env k = Inl e \<Longrightarrow> execute_on_chain env k d = (Inl e, [])"
  by (simp add: execute_on_chain_def)

lemma execute_on_chain_nonce_failed:
  "new_Wallet env k = Inr w \<Longrightarrow> nonce_call env = Inl e \<Longrightarrow>
   execute_on_chain env k d = (Inl e, [CallNonce])"
  by (simp add: execute_on_chain_def)

lemma execute_on_chain_hash_failed:
  "new_Wallet env k = Inr w \<Longrightarrow> nonce_call env = Inr n \<Longrightarrow>
   getTransactionHash_call env (exec_params_of d) n = Inl e \<Longrightarrow>
   execute_on_chain env k d = (Inl e, [CallNonce, CallGetTransactionHash (exec_params_of d) n])"
  by (simp add: execute_on_chain_def)

lemma list_all_replicate: "0 < n \<Longrightarrow> list_all P (replicate n x) = P x"
  by (auto simp: list_all_iff)

lemma strip0x_replicate: "c \<noteq> CHR ''0'' \<Longrightarrow> strip0x (replicate n c) = replicate n c"
  by (cases n) (simp_all add: strip0x_def startsWith_def)

lemma sample_wallet_rejects: "sample_wallet rejected_key = Inl (Error ''invalid private key'')"
  by (simp add: sample_wallet_def rejected_key_def strip0x_replicate list_all_replicate
      is_hex_char_def)

lemma sample_wallet_accepts:
  "sample_wallet valid_key = Inr ''0xf39Fd6e51aad88F6F4ce6aB8827279cffFb92266''"
  by (simp add: sample_wallet_def valid_key_def is_hex_char_def)

lemma valid_key_facts: "valid_key \<noteq> []"
  by (simp add: valid_key_def)

lemma rejected_key_facts: "rejected_key \<noteq> []" "length rejected_key = 64"
  by (simp_all add: rejected_key_def)

text \<open>
  C4, as stated, fails in its second half: enough confirmations and not executed do not
  suffice for a chain call. A key of 64 characters that are no hexadecimal digits passes
  the validation of the page, so \<open>connectToSafe\<close> makes a client with it; executing
  with that key ends when ethers refuses to make the wallet, after the request to the
  transaction service and before anything is sent to the chain.
\<close>

theorem rejected_key_counterexample:
  "connected_client ''http://localhost:8000'' ''http://localhost:8545'' rejected_key
       ''0x5afe000000000000000000000000000000000001''
     = Some (SafeClient ''http://localhost:8000'' ''0x5afe000000000000000000000000000000000001''
               ''http://localhost:8545'' rejected_key)
   \<and> required_of sample_tx \<le> length (confirmations_of sample_tx) \<and> \<not> isExecuted sample_tx
   \<and> executeTransaction
        (SafeClient ''http://localhost:8000'' ''0x5afe000000000000000000000000000000000001''
           ''http://localhost:8545'' rejected_key)
        ((sample_env sample_tx)\<lparr>new_Wallet := sample_wallet\<rparr>) ''0xabc'' rejected_key
       = (Inl (Error ''invalid private key''),
          [Fetch ''GET'' ''http://localhost:8000/api/v1/multisig-transactions/0xabc/''])
   \<and> \<not> list_ex is_chain_call
         (snd (executeTransaction
            (SafeClient ''http://localhost:8000'' ''0x5afe000000000000000000000000000000000001''
               ''http://localhost:8545'' rejected_key)
            ((sample_env sample_tx)\<lparr>new_Wallet := sample_wallet\<rparr>) ''0xabc'' rejected_key))"
proof -
  let ?c = "SafeClient ''http://localhost:8000'' ''0x5afe000000000000000000000000000000000001''
               ''http://localhost:8545'' rejected_key"
  let ?env = "(sample_env sample_tx)\<lparr>new_Wallet := sample_wallet\<rparr>"
  have v: "validateConfiguration_app ''http://localhost:8545'' rejected_key
      ''0x5afe000000000000000000000000000000000001''"
    by (simp add: validateConfiguration_app_def rejected_key_facts startsWith_def)
  have c: "rpcUrl ?c = ''http://localhost:8545''" "privateKey ?c = rejected_key"
    "transaction_url ?c ''0xabc'' = ''http://localhost:8000/api/v1/multisig-transactions/0xabc/''"
    by (simp_all add: SafeClient_def endsWith_slash_def transaction_url_def)
  have e: "fetch_tx ?env u = Inr ok_response" "json_tx ?env r = Inr sample_tx"
    "new_Wallet ?env rejected_key = Inl (Error ''invalid private key'')" for u r
    by (simp_all add: sample_env_facts sample_wallet_rejects)
  have "executeTransaction ?c ?env ''0xabc'' rejected_key
       = (Inl (Error ''invalid private key''),
          [Fetch ''GET'' ''http://localhost:8000/api/v1/multisig-transactions/0xabc/''])"
    using executeTransaction_guards_passed [of ?env ?c "''0xabc''" ok_response sample_tx rejected_key]
    by (simp add: e c sample_env_facts sample_facts rejected_key_facts or_default_def
        execute_on_chain_wallet_rejected [OF e(3)])
  then show ?thesis
    using v by (simp add: connected_client_def sample_facts)
qed

text \<open>
  C4, amended. Once the transaction is fetched: with fewer confirmations than required
  (\<open>confirmationsRequired\<close>, or 1 when that is missing or 0) the run throws
  ``Insufficient confirmations: count/required'' and has made no chain call. With enough
  confirmations and not executed, the run throws ``RPC URL not configured'' when the
  client has no RPC URL, ``Private key not configured'' when there is no key, and the
  error of ethers when it refuses the key, each time with no chain call; with a wallet
  made, a failing \<open>nonce()\<close> or \<open>getTransactionHash\<close> ends the run with its error
  before any execution call; and when both come back the run is the gas estimation and
  the submission with the assembled signatures, so that \<open>execTransaction\<close> is called.
\<close>

theorem threshold_gate:
  assumes "fetch_tx env url = Inr r" and "ok r" and "json_tx env r = Inr d"
    and "url = transaction_url this h"
    and "k = or_default key (privateKey this)"
    and "p = exec_params_of d"
    and "s = fst (buildSignatures (localeCompare env) (confirmations_of d))"
    and "g = fst (estimate_gasLimit env p s)"
  shows
    "(length (confirmations_of d) < required_of d \<longrightarrow>
        executeTransaction this env h key =
          (Inl (Error (''Insufficient confirmations: ''
              @ toString10 (length (confirmations_of d)) @ ''/''
              @ toString10 (required_of d))),
           [Fetch ''GET'' url]))
   \<and> (required_of d \<le> length (confirmations_of d) \<and> \<not> isExecuted d \<longrightarrow>
        (rpcUrl this = [] \<longrightarrow>
           executeTransaction this env h key =
             (Inl (Error ''RPC URL not configured''), [Fetch ''GET'' url]))
      \<and> (rpcUrl this \<noteq> [] \<and> key = [] \<and> privateKey this = [] \<longrightarrow>
           executeTransaction this env h key =
             (Inl (Error ''Private key not configured''), [Fetch ''GET'' url]))
      \<and> (rpcUrl this \<noteq> [] \<and> (key \<noteq> [] \<or> privateKey this \<noteq> []) \<longrightarrow>
           (\<forall>e. new_Wallet env k = Inl e \<longrightarrow>
              executeTransaction this env h key = (Inl e, [Fetch ''GET'' url]))
         \<and> (\<forall>w e. new_Wallet env k = Inr w \<and> nonce_call env = Inl e \<longrightarrow>
              executeTransaction this env h key = (Inl e, [Fetch ''GET'' url, CallNonce]))
         \<and> (\<forall>w n e. new_Wallet env k = Inr w \<and> nonce_call env = Inr n
                \<and> getTransactionHash_call env p n = Inl e \<longrightarrow>
              executeTransaction this env h key =
                (Inl e, [Fetch ''GET'' url, CallNonce, CallGetTransactionHash p n]))
         \<and> (\<forall>w n th. new_Wallet env k = Inr w \<and> nonce_call env = Inr n
                \<and> getTransactionHash_call env p n = Inr th \<longrightarrow>
              executeTransaction this env h key =
                (fst (submit env p s g),
                 [Fetch ''GET'' url, CallNonce, CallGetTransactionHash p n]
                   @ snd (buildSignatures (localeCompare env) (confirmations_of d))
                   @ snd (estimate_gasLimit env p s) @ snd (submit env p s g))
              \<and> CallExecTransaction p s g
                    \<in> set (snd (executeTransaction this env h key)))))"
proof -
  note f = assms(1-3) [unfolded assms(4)]
  have low: "length (confirmations_of d) < required_of d \<Longrightarrow>
      executeTransaction this env h key =
        (Inl (Error (''Insufficient confirmations: ''
            @ toString10 (length (confirmations_of d)) @ ''/''
            @ toString10 (required_of d))), [Fetch ''GET'' url])"
    unfolding assms(4) using f by (rule executeTransaction_insufficient)
  {
    assume g: "required_of d \<le> length (confirmations_of d)" "\<not> isExecuted d"
    have norpc: "rpcUrl this = [] \<Longrightarrow> executeTransaction this env h key =
        (Inl (Error ''RPC URL not configured''), [Fetch ''GET'' url])"
      unfolding assms(4) using f g by (rule executeTransaction_no_rpc)
    have nokey: "rpcUrl this \<noteq> [] \<Longrightarrow> key = [] \<Longrightarrow> privateKey this = [] \<Longrightarrow>
        executeTransaction this env h key =
          (Inl (Error ''Private key not configured''), [Fetch ''GET'' url])"
      unfolding assms(4) using f g by (rule executeTransaction_no_key)
    {
      assume c: "rpcUrl this \<noteq> []" "key \<noteq> [] \<or> privateKey this \<noteq> []"
      have run: "executeTransaction this env h key =
          (fst (execute_on_chain env k d), Fetch ''GET'' url # snd (execute_on_chain env k d))"
        unfolding assms(4,5) using f g c by (rule executeTransaction_guards_passed)
      have a: "new_Wallet env k = Inl e \<Longrightarrow>
          executeTransaction this env h key = (Inl e, [Fetch ''GET'' url])" for e
        by (simp add: run execute_on_chain_wallet_rejected)
      have b: "new_Wallet env k = Inr w \<Longrightarrow> nonce_call env = Inl e \<Longrightarrow>
          executeTransaction this env h key = (Inl e, [Fetch ''GET'' url, CallNonce])" for w e
        by (simp add: run execute_on_chain_nonce_failed)
      have c': "new_Wallet env k = Inr w \<Longrightarrow> nonce_call env = Inr n \<Longrightarrow>
          getTransactionHash_call env p n = Inl e \<Longrightarrow>
          executeTransaction this env h key =
            (Inl e, [Fetch ''GET'' url, CallNonce, CallGetTransactionHash p n])" for w n e
        unfolding assms(6) by (simp add: run execute_on_chain_hash_failed)
      have d': "executeTransaction this env h key =
                (fst (submit env p s g),
                 [Fetch ''GET'' url, CallNonce, CallGetTransactionHash p n]
                   @ snd (buildSignatures (localeCompare env) (confirmations_of d))
                   @ snd (estimate_gasLimit env p s) @ snd (submit env p s g))
              \<and> CallExecTransaction p s g
                    \<in> set (snd (executeTransaction this env h key))"
        if w: "new_Wallet env k = Inr w" and n: "nonce_call env = Inr n"
          and th: "getTransactionHash_call env p n = Inr th" for w n th
      proof -
        have "execute_on_chain env k d =
           (fst (submit env p s g),
            [CallNonce, CallGetTransactionHash p n]
              @ snd (buildSignatures (localeCompare env) (confirmations_of d))
              @ snd (estimate_gasLimit env p s) @ snd (submit env p s g))"
          using w n th [unfolded assms(6)] assms(6,7,8)
          by (intro execute_on_chain_estimated) simp_all
        then show ?thesis
          using submit_calls [of p s g env] by (simp add: run)
      qed
      note a b c' d'
    }
    note norpc nokey this
  }
  with low show ?thesis by blast
qed

theorem threshold_gate_witness:
  "length (confirmations_of unconfirmed_tx) < required_of unconfirmed_tx
   \<and> executeTransaction (sample_client ''http://localhost:8545'')
        ((sample_env unconfirmed_tx)\<lparr>new_Wallet := sample_wallet\<rparr>) ''0xabc'' valid_key
       = (Inl (Error ''Insufficient confirmations: 1/2''),
          [Fetch ''GET'' ''http://localhost:8000/api/v1/multisig-transactions/0xabc/''])
   \<and> required_of sample_tx \<le> length (confirmations_of sample_tx) \<and> \<not> isExecuted sample_tx
   \<and> executeTransaction (sample_client [])
        ((sample_env sample_tx)\<lparr>new_Wallet := sample_wallet\<rparr>) ''0xabc'' valid_key
       = (Inl (Error ''RPC URL not configured''),
          [Fetch ''GET'' ''http://localhost:8000/api/v1/multisig-transactions/0xabc/''])
   \<and> executeTransaction (sample_client ''http://localhost:8545'')
        ((sample_env sample_tx)\<lparr>new_Wallet := sample_wallet\<rparr>) ''0xabc'' []
       = (Inl (Error ''Private key not configured''),
          [Fetch ''GET'' ''http://localhost:8000/api/v1/multisig-transactions/0xabc/''])
   \<and> executeTransaction (sample_client ''http://localhost:8545'')
        ((sample_env sample_tx)\<lparr>new_Wallet := sample_wallet\<rparr>) ''0xabc'' rejected_key
       = (Inl (Error ''invalid private key''),
          [Fetch ''GET'' ''http://localhost:8000/api/v1/multisig-transactions/0xabc/''])
   \<and> executeTransaction (sample_client ''http://localhost:8545'')
        ((sample_env sample_tx)\<lparr>new_Wallet := sample_wallet\<rparr>) ''0xabc'' valid_key
       = (Inr \<lparr>success = True, transactionHash = ''0x7c'', blockNumber = 7\<rparr>,
          [Fetch ''GET'' ''http://localhost:8000/api/v1/multisig-transactions/0xabc/'', CallNonce,
           CallGetTransactionHash (exec_params_of sample_tx) 5,
           CallEstimateGas (exec_params_of sample_tx)
             (''0x'' @ replicate 130 (CHR ''a'') @ replicate 130 (CHR ''b'')),
           WarnGasEstimationFailed ''cannot estimate gas'',
           CallExecTransaction (exec_params_of sample_tx)
             (''0x'' @ replicate 130 (CHR ''a'') @ replicate 130 (CHR ''b'')) 500000,
           CallWait ''0x7c''])"
proof -
  let ?c = "sample_client ''http://localhost:8545''"
  let ?u = "''http://localhost:8000/api/v1/multisig-transactions/0xabc/''"
  let ?env = "(sample_env sample_tx)\<lparr>new_Wallet := sample_wallet\<rparr>"
  let ?p = "exec_params_of sample_tx"
  have d10: "toString10 (Suc 0) = ''1''" "toString10 2 = ''2''"
    by (simp_all add: toString10_def digits.simps digit_char_def)
  have u: "?u = transaction_url (sample_client rpc) ''0xabc''" for rpc
    by (simp add: transaction_url_def sample_client_facts)
  have f: "fetch_tx ((sample_env d)\<lparr>new_Wallet := sample_wallet\<rparr>) ?u = Inr ok_response"
    "ok ok_response"
    "json_tx ((sample_env d)\<lparr>new_Wallet := sample_wallet\<rparr>) ok_response = Inr d" for d
    by (simp_all add: sample_env_facts)
  have low: "length (confirmations_of unconfirmed_tx) < required_of unconfirmed_tx"
    by (simp add: sample_facts)
  have high: "required_of sample_tx \<le> length (confirmations_of sample_tx)
      \<and> \<not> isExecuted sample_tx"
    by (simp add: sample_facts)
  have 1: "executeTransaction ?c ((sample_env unconfirmed_tx)\<lparr>new_Wallet := sample_wallet\<rparr>)
        ''0xabc'' valid_key
       = (Inl (Error ''Insufficient confirmations: 1/2''), [Fetch ''GET'' ?u])"
    using threshold_gate [where key = valid_key, OF f u refl refl refl refl,
        THEN conjunct1, THEN mp, OF low]
    by (simp add: sample_facts d10)
  have 2: "executeTransaction (sample_client []) ?env ''0xabc'' valid_key
       = (Inl (Error ''RPC URL not configured''), [Fetch ''GET'' ?u])"
    using threshold_gate [where key = valid_key and this = "sample_client []",
        OF f u refl refl refl refl, THEN conjunct2, THEN mp, OF high, THEN conjunct1]
    by (simp add: sample_client_facts)
  have 3: "executeTransaction ?c ?env ''0xabc'' []
       = (Inl (Error ''Private key not configured''), [Fetch ''GET'' ?u])"
    using threshold_gate [where key = "[]" and this = ?c,
        OF f u refl refl refl refl, THEN conjunct2, THEN mp, OF high,
        THEN conjunct2, THEN conjunct1]
    by (simp add: sample_client_facts)
  have c: "rpcUrl ?c \<noteq> [] \<and> (k \<noteq> [] \<or> privateKey ?c \<noteq> [])" if "k \<noteq> []" for k
    using that by (simp add: sample_client_facts)
  have r: "new_Wallet ?env (or_default rejected_key (privateKey ?c))
        = Inl (Error ''invalid private key'')"
    by (simp add: or_default_def rejected_key_facts sample_wallet_rejects)
  have 4: "executeTransaction ?c ?env ''0xabc'' rejected_key
       = (Inl (Error ''invalid private key''), [Fetch ''GET'' ?u])"
    by (rule threshold_gate [where key = rejected_key and this = ?c,
        OF f u refl refl refl refl, THEN conjunct2, THEN mp, OF high,
        THEN conjunct2, THEN conjunct2, THEN mp, OF c [OF rejected_key_facts(1)],
        THEN conjunct1, THEN spec, THEN mp, OF r])
  have w: "new_Wallet ?env (or_default valid_key (privateKey ?c))
        = Inr ''0xf39Fd6e51aad88F6F4ce6aB8827279cffFb92266''
      \<and> nonce_call ?env = Inr 5
      \<and> getTransactionHash_call ?env ?p 5 = Inr ''0x5afe''"
    by (simp add: sample_env_facts or_default_def valid_key_facts sample_wallet_accepts)
  have s: "buildSignatures (localeCompare ?env) (confirmations_of sample_tx)
      = (''0x'' @ replicate 130 (CHR ''a'') @ replicate 130 (CHR ''b''), [])"
    by (simp add: sample_env_facts sample_tx_def confirmations_of_def
        scenario_A_on_code_unit_host)
  have g: "estimate_gasLimit ?env ?p sg
      = (500000, [CallEstimateGas ?p sg, WarnGasEstimationFailed ''cannot estimate gas''])" for sg
    by (simp add: estimate_gasLimit_def sample_env_facts)
  have x: "submit ?env ?p sg 500000
      = (Inr \<lparr>success = True, transactionHash = ''0x7c'', blockNumber = 7\<rparr>,
         [CallExecTransaction ?p sg 500000, CallWait ''0x7c''])" for sg
    by (simp add: submit_def sample_env_facts)
  have 5: "executeTransaction ?c ?env ''0xabc'' valid_key
       = (Inr \<lparr>success = True, transactionHash = ''0x7c'', blockNumber = 7\<rparr>,
          [Fetch ''GET'' ?u, CallNonce, CallGetTransactionHash ?p 5,
           CallEstimateGas ?p (''0x'' @ replicate 130 (CHR ''a'') @ replicate 130 (CHR ''b'')),
           WarnGasEstimationFailed ''cannot estimate gas'',
           CallExecTransaction ?p
             (''0x'' @ replicate 130 (CHR ''a'') @ replicate 130 (CHR ''b'')) 500000,
           CallWait ''0x7c''])"
    using threshold_gate [where key = valid_key and this = ?c,
        OF f u refl refl refl refl, THEN conjunct2, THEN mp, OF high,
        THEN conjunct2, THEN conjunct2, THEN mp, OF c [OF valid_key_facts],
        THEN conjunct2, THEN conjunct2, THEN conjunct2,
        THEN spec, THEN spec, THEN spec, THEN mp, OF w, THEN conjunct1]
    by (simp only: s g x fst_conv snd_conv append_Nil append_Cons)
  show ?thesis
    using 1 2 3 4 5 low high by simp
qed

text \<open>
  C6. In a run that reaches the gas estimation: when the estimation throws,
  \<open>execTransaction\<close> is called with the gas limit 500000, and the run succeeds if the
  submission and the wait do; when the estimation returns \<open>g\<close>, \<open>execTransaction\<close> is
  called with the gas limit \<open>g * 120 div 100\<close>.
\<close>

theorem gas_limit_of_execution:
  assumes "fetch_tx env (transaction_url this h) = Inr r" and "ok r" and "json_tx env r = Inr d"
    and "required_of d \<le> length (confirmations_of d)" and "\<not> isExecuted d"
    and "rpcUrl this \<noteq> []" and "key \<noteq> [] \<or> privateKey this \<noteq> []"
    and "new_Wallet env (or_default key (privateKey this)) = Inr w"
    and "nonce_call env = Inr n"
    and "getTransactionHash_call env (exec_params_of d) n = Inr th"
    and "p = exec_params_of d" and "s = fst (buildSignatures (localeCompare env) (confirmations_of d))"
  shows "(\<forall>e. estimateGas_call env p s = Inl e \<longrightarrow>
            CallExecTransaction p s 500000 \<in> set (snd (executeTransaction this env h key))
          \<and> (\<forall>t b. execTransaction_call env p s 500000 = Inr t \<and> wait_call env t = Inr b \<longrightarrow>
                fst (executeTransaction this env h key)
                  = Inr \<lparr>success = True, transactionHash = t, blockNumber = b\<rparr>))
       \<and> (\<forall>g. estimateGas_call env p s = Inr g \<longrightarrow>
            CallExecTransaction p s (g * 120 div 100)
              \<in> set (snd (executeTransaction this env h key)))"
proof -
  let ?g = "fst (estimate_gasLimit env p s)"
  have chain: "execute_on_chain env (or_default key (privateKey this)) d =
     (fst (submit env p s ?g),
      [CallNonce, CallGetTransactionHash p n] @ snd (buildSignatures (localeCompare env) (confirmations_of d))
        @ snd (estimate_gasLimit env p s) @ snd (submit env p s ?g))"
    using assms(8-12) by (rule execute_on_chain_estimated) simp
  have run: "executeTransaction this env h key =
     (fst (submit env p s ?g),
      Fetch ''GET'' (transaction_url this h) # [CallNonce, CallGetTransactionHash p n]
        @ snd (buildSignatures (localeCompare env) (confirmations_of d))
        @ snd (estimate_gasLimit env p s) @ snd (submit env p s ?g))"
    using executeTransaction_guards_passed [OF assms(1-7)] chain by simp
  have call: "CallExecTransaction p s ?g \<in> set (snd (executeTransaction this env h key))"
    using submit_calls [of p s ?g env] by (simp add: run)
  show ?thesis
    using call by (auto simp: estimate_fail estimate_ok run submit_success)
qed

theorem gas_limit_of_execution_witness:
  "estimateGas_call (sample_env sample_tx) (exec_params_of sample_tx)
       (fst (buildSignatures code_unit_compare (confirmations_of sample_tx))) = Inl (Error ''cannot estimate gas'')
   \<and> CallExecTransaction (exec_params_of sample_tx)
        (fst (buildSignatures code_unit_compare (confirmations_of sample_tx))) 500000
       \<in> set (snd (executeTransaction (sample_client ''http://localhost:8545'')
                  (sample_env sample_tx) ''0xabc'' ''0x01''))
   \<and> fst (executeTransaction (sample_client ''http://localhost:8545'')
            (sample_env sample_tx) ''0xabc'' ''0x01'')
       = Inr \<lparr>success = True, transactionHash = ''0x7c'', blockNumber = 7\<rparr>
   \<and> CallExecTransaction (exec_params_of sample_tx)
        (fst (buildSignatures code_unit_compare (confirmations_of sample_tx))) 120000
       \<in> set (snd (executeTransaction (sample_client ''http://localhost:8545'')
                  ((sample_env sample_tx)\<lparr>estimateGas_call := \<lambda>p s. Inr 100000\<rparr>)
                  ''0xabc'' ''0x01''))"
proof -
  let ?c = "sample_client ''http://localhost:8545''"
  let ?p = "exec_params_of sample_tx"
  let ?s = "fst (buildSignatures code_unit_compare (confirmations_of sample_tx))"
  let ?env' = "(sample_env sample_tx)\<lparr>estimateGas_call := \<lambda>p s. Inr 100000\<rparr>"
  have a: "estimateGas_call (sample_env sample_tx) ?p ?s = Inl (Error ''cannot estimate gas'')"
    by (simp add: sample_env_facts)
  have b: "estimateGas_call ?env' ?p ?s = Inr 100000"
    by simp
  have 1: "(\<forall>e. estimateGas_call (sample_env sample_tx) ?p ?s = Inl e \<longrightarrow>
            CallExecTransaction ?p ?s 500000
              \<in> set (snd (executeTransaction ?c (sample_env sample_tx) ''0xabc'' ''0x01''))
          \<and> (\<forall>t b. execTransaction_call (sample_env sample_tx) ?p ?s 500000 = Inr t
                  \<and> wait_call (sample_env sample_tx) t = Inr b \<longrightarrow>
                fst (executeTransaction ?c (sample_env sample_tx) ''0xabc'' ''0x01'')
                  = Inr \<lparr>success = True, transactionHash = t, blockNumber = b\<rparr>))
       \<and> (\<forall>g. estimateGas_call (sample_env sample_tx) ?p ?s = Inr g \<longrightarrow>
            CallExecTransaction ?p ?s (g * 120 div 100)
              \<in> set (snd (executeTransaction ?c (sample_env sample_tx) ''0xabc'' ''0x01'')))"
    by (rule gas_limit_of_execution [where r = ok_response and d = sample_tx and n = 5])
       (simp_all add: sample_env_facts sample_facts sample_client_facts)
  have 2: "(\<forall>e. estimateGas_call ?env' ?p ?s = Inl e \<longrightarrow>
            CallExecTransaction ?p ?s 500000
              \<in> set (snd (executeTransaction ?c ?env' ''0xabc'' ''0x01''))
          \<and> (\<forall>t b. execTransaction_call ?env' ?p ?s 500000 = Inr t
                  \<and> wait_call ?env' t = Inr b \<longrightarrow>
                fst (executeTransaction ?c ?env' ''0xabc'' ''0x01'')
                  = Inr \<lparr>success = True, transactionHash = t, blockNumber = b\<rparr>))
       \<and> (\<forall>g. estimateGas_call ?env' ?p ?s = Inr g \<longrightarrow>
            CallExecTransaction ?p ?s (g * 120 div 100)
              \<in> set (snd (executeTransaction ?c ?env' ''0xabc'' ''0x01'')))"
    by (rule gas_limit_of_execution [where r = ok_response and d = sample_tx and n = 5])
       (simp_all add: sample_env_facts sample_facts sample_client_facts)
  from 1 a have "CallExecTransaction ?p ?s 500000
      \<in> set (snd (executeTransaction ?c (sample_env sample_tx) ''0xabc'' ''0x01''))"
    by blast
  moreover from 1 a have "fst (executeTransaction ?c (sample_env sample_tx) ''0xabc'' ''0x01'')
       = Inr \<lparr>success = True, transactionHash = ''0x7c'', blockNumber = 7\<rparr>"
    using sample_env_facts(9,10) by blast
  moreover from 2 b have "CallExecTransaction ?p ?s (100000 * 120 div 100)
      \<in> set (snd (executeTransaction ?c ?env' ''0xabc'' ''0x01''))"
    by blast
  ultimately show ?thesis using a by simp
qed

text \<open>
  C8, as stated, fails: for a transaction that is already executed \<open>executeTransaction\<close>
  throws.
\<close>

theorem already_executed_counterexample:
  "isExecuted executed_tx
   \<and> executeTransaction (sample_client ''http://localhost:8545'') (sample_env executed_tx)
        ''0xabc'' ''0x01''
       = (Inl (Error ''Transaction already executed''),
          [Fetch ''GET'' ''http://localhost:8000/api/v1/multisig-transactions/0xabc/''])"
  by (simp add: executeTransaction_def sample_env_facts sample_facts sample_client_facts
      transaction_url_def)

subsection \<open>Errors of the transaction service\<close>

lemma digits_base: "n < b \<Longrightarrow> digits b n = [digit_char n]"
  by (simp add: digits.simps)

lemma digits_rec:
  "2 \<le> b \<Longrightarrow> b \<le> n \<Longrightarrow> digits b n = digits b (n div b) @ [digit_char (n mod b)]"
  by (subst digits.simps) simp

lemma toString10_400: "toString10 400 = ''400''"
  by (simp add: toString10_def digits_rec digits_base digit_char_def)

lemma confirm_not_ok:
  assumes "key \<noteq> []" and "sign_with_key env key h = Inr (sg, ow)"
    and "c_fetch env (confirmations_url this h) sg ow = Inr r" and "\<not> ok r"
  shows "confirm this env h key =
      (Inl (Error (''HTTP error! status: '' @ toString10 (status r) @ '' - '' @ statusText r
           @ ''. URL: '' @ confirmations_url this h)),
       [Fetch ''POST'' (confirmations_url this h)])"
  using assms by (simp add: confirm_def Let_def)

lemma confirm_posts:
  assumes "key \<noteq> []" and "sign_with_key env key h = Inr (sg, ow)"
  shows "snd (confirm this env h key) = [Fetch ''POST'' (confirmations_url this h)]"
  using assms by (simp add: confirm_def Let_def split: sum.splits)

lemma fallback_not_ok:
  assumes "ethers_loaded env" and "signMessage env (c_privateKey cfg) h = Inr sg"
    and "url = c_txServiceUrl cfg @ ''/api/v2/multisig-transactions/'' @ h @ ''/confirmations/''"
    and "f_fetch env url sg = Inr r" and "\<not> ok r"
  shows "confirmTransactionFallback env (Some cfg) h =
      Some (Inl (Error (''Failed to confirm transaction: '' @ statusText r @ '' - '' @ body r)),
            [Fetch ''POST'' url])"
  using assms by (simp add: confirmTransactionFallback_def generateSignature_def Let_def)

lemma sample_sign:
  "sign_with_key (sample_confirm_env r) ''0x01'' h
     = Inr (''0x'' @ replicate 130 (CHR ''1''), ''0xf39Fd6e51aad88F6F4ce6aB8827279cffFb92266'')"
  by (simp add: sign_with_key_def sample_confirm_env_def)

lemma sample_confirm_facts:
  "c_fetch (sample_confirm_env r) u sg a = Inr r"
  by (simp add: sample_confirm_env_def)

lemma sample_fallback_facts:
  "ethers_loaded (sample_fallback_env r)"
  "signMessage (sample_fallback_env r) k h = Inr (''0x'' @ replicate 130 (CHR ''1''))"
  "f_fetch (sample_fallback_env r) u sg = Inr r"
  by (simp_all add: sample_fallback_env_def)

lemma bad_request_facts:
  "\<not> ok (bad_request b)" "status (bad_request b) = 400"
  "statusText (bad_request b) = ''Bad Request''" "body (bad_request b) = b"
  by (simp_all add: bad_request_def)

text \<open>
  C7, as stated, fails. The transaction service answers a confirmation with 400 and a
  body. \<open>SafeClient.confirm\<close> throws an error with the status, the status text and the
  URL, and the same error whatever the body is; \<open>confirmTransactionFallback\<close> throws
  one with the status text and the body, and without the number 400.
\<close>

theorem response_body_counterexample:
  \<open>confirm (sample_client ''http://localhost:8545'')
       (sample_confirm_env (bad_request ''{"nonMultisigTransactionData": true}'')) ''0xabc'' ''0x01''
     = (Inl (Error ''HTTP error! status: 400 - Bad Request. URL: http://localhost:8000/api/v1/multisig-transactions/0xabc/confirmations/''),
        [Fetch ''POST'' ''http://localhost:8000/api/v1/multisig-transactions/0xabc/confirmations/''])
   \<and> confirm (sample_client ''http://localhost:8545'')
       (sample_confirm_env (bad_request ''signature already added'')) ''0xabc'' ''0x01''
     = confirm (sample_client ''http://localhost:8545'')
       (sample_confirm_env (bad_request ''{"nonMultisigTransactionData": true}'')) ''0xabc'' ''0x01''
   \<and> confirmTransactionFallback
       (sample_fallback_env (bad_request ''{"nonMultisigTransactionData": true}''))
       (Some sample_config) ''0xabc''
     = Some (Inl (Error ''Failed to confirm transaction: Bad Request - {"nonMultisigTransactionData": true}''),
        [Fetch ''POST'' ''http://localhost:8000/api/v2/multisig-transactions/0xabc/confirmations/''])\<close>
proof -
  let ?c = "sample_client ''http://localhost:8545''"
  have u: "confirmations_url ?c ''0xabc''
      = ''http://localhost:8000/api/v1/multisig-transactions/0xabc/confirmations/''"
    by (simp add: confirmations_url_def sample_client_facts)
  have c: "confirm ?c (sample_confirm_env (bad_request b)) ''0xabc'' ''0x01''
     = (Inl (Error ''HTTP error! status: 400 - Bad Request. URL: http://localhost:8000/api/v1/multisig-transactions/0xabc/confirmations/''),
        [Fetch ''POST'' ''http://localhost:8000/api/v1/multisig-transactions/0xabc/confirmations/''])"
    for b
    using confirm_not_ok [of "''0x01''" "sample_confirm_env (bad_request b)" "''0xabc''"
        "''0x'' @ replicate 130 (CHR ''1'')" "''0xf39Fd6e51aad88F6F4ce6aB8827279cffFb92266''"
        ?c "bad_request b"]
    by (simp add: sample_sign sample_confirm_facts bad_request_facts toString10_400 u)
  have f: "confirmTransactionFallback (sample_fallback_env (bad_request b)) (Some sample_config)
        ''0xabc''
     = Some (Inl (Error (''Failed to confirm transaction: Bad Request - '' @ b)),
        [Fetch ''POST'' ''http://localhost:8000/api/v2/multisig-transactions/0xabc/confirmations/''])"
    for b
    using fallback_not_ok [of "sample_fallback_env (bad_request b)" sample_config "''0xabc''"
        "''0x'' @ replicate 130 (CHR ''1'')"
        "''http://localhost:8000/api/v2/multisig-transactions/0xabc/confirmations/''"
        "bad_request b"]
    by (simp add: sample_fallback_facts bad_request_facts sample_config_def)
  show ?thesis
    by (simp only: c f) simp
qed

text \<open>
  C7, amended. When the response to the \<open>POST\<close> of a confirmation is not 2xx,
  \<open>SafeClient.confirm\<close> throws ``HTTP error! status: S - T. URL: U'' with the status
  \<open>S\<close>, the status text \<open>T\<close> and the URL \<open>U\<close>, and \<open>confirmTransactionFallback\<close>
  throws ``Failed to confirm transaction: T - B'' with the status text and the body
  \<open>B\<close> as it came.
\<close>

theorem relay_error_messages:
  "(key \<noteq> [] \<and> sign_with_key env key h = Inr (sg, ow)
      \<and> c_fetch env (confirmations_url this h) sg ow = Inr r \<and> \<not> ok r \<longrightarrow>
      confirm this env h key =
        (Inl (Error (''HTTP error! status: '' @ toString10 (status r) @ '' - '' @ statusText r
             @ ''. URL: '' @ confirmations_url this h)),
         [Fetch ''POST'' (confirmations_url this h)]))
   \<and> (ethers_loaded fenv \<and> signMessage fenv (c_privateKey cfg) h = Inr fsg
      \<and> f_fetch fenv (c_txServiceUrl cfg @ ''/api/v2/multisig-transactions/'' @ h
            @ ''/confirmations/'') fsg = Inr r \<and> \<not> ok r \<longrightarrow>
      confirmTransactionFallback fenv (Some cfg) h =
        Some (Inl (Error (''Failed to confirm transaction: '' @ statusText r @ '' - '' @ body r)),
              [Fetch ''POST'' (c_txServiceUrl cfg @ ''/api/v2/multisig-transactions/'' @ h
                 @ ''/confirmations/'')]))"
  using confirm_not_ok fallback_not_ok by blast

theorem relay_error_messages_witness:
  \<open>\<not> ok (bad_request ''{"nonMultisigTransactionData": true}'')
   \<and> confirm (sample_client ''http://localhost:8545'')
       (sample_confirm_env (bad_request ''{"nonMultisigTransactionData": true}'')) ''0xabc'' ''0x01''
     = (Inl (Error ''HTTP error! status: 400 - Bad Request. URL: http://localhost:8000/api/v1/multisig-transactions/0xabc/confirmations/''),
        [Fetch ''POST'' ''http://localhost:8000/api/v1/multisig-transactions/0xabc/confirmations/''])
   \<and> confirmTransactionFallback
       (sample_fallback_env (bad_request ''{"nonMultisigTransactionData": true}''))
       (Some sample_config) ''0xabc''
     = Some (Inl (Error ''Failed to confirm transaction: Bad Request - {"nonMultisigTransactionData": true}''),
        [Fetch ''POST'' ''http://localhost:8000/api/v2/multisig-transactions/0xabc/confirmations/''])\<close>
proof -
  let ?c = "sample_client ''http://localhost:8545''"
  let ?r = \<open>bad_request ''{"nonMultisigTransactionData": true}''\<close>
  have u: "confirmations_url ?c ''0xabc''
      = ''http://localhost:8000/api/v1/multisig-transactions/0xabc/confirmations/''"
    by (simp add: confirmations_url_def sample_client_facts)
  show ?thesis
    using relay_error_messages [of "''0x01''" "sample_confirm_env ?r" "''0xabc''"
        "''0x'' @ replicate 130 (CHR ''1'')" "''0xf39Fd6e51aad88F6F4ce6aB8827279cffFb92266''"
        ?c ?r "sample_fallback_env ?r" sample_config "''0x'' @ replicate 130 (CHR ''1'')"]
    by (simp add: sample_sign sample_confirm_facts sample_fallback_facts bad_request_facts
        toString10_400 u sample_config_def)
qed

subsection \<open>Executing or confirming again\<close>

lemma executeTransaction_executed_trace:
  assumes "fetch_tx env (transaction_url this h) = Inr r" and "ok r" and "json_tx env r = Inr d"
    and "isExecuted d"
  shows "snd (executeTransaction this env h key) = [Fetch ''GET'' (transaction_url this h)]
    \<and> (\<exists>m. fst (executeTransaction this env h key) = Inl (Error m))"
  using assms by (simp add: executeTransaction_def Let_def)

text \<open>
  C8, amended. For a fetched transaction that is already executed
  \<open>executeTransaction\<close> throws, having made the one request to the transaction service
  and no chain call; the error is ``Transaction already executed'' when the
  confirmations reach the threshold. The card of the TypeScript manager offers neither
  button for it, and no confirm button for a transaction that the current signer has
  confirmed. \<open>SafeClient.confirm\<close> itself looks at no earlier confirmation: with a key
  and a signature it sends its \<open>POST\<close>.
\<close>

theorem already_executed_rejected:
  assumes "fetch_tx env (transaction_url this h) = Inr r" and "ok r" and "json_tx env r = Inr d"
    and "isExecuted d"
  shows "(\<exists>m. fst (executeTransaction this env h key) = Inl (Error m))
    \<and> snd (executeTransaction this env h key) = [Fetch ''GET'' (transaction_url this h)]
    \<and> (required_of d \<le> length (confirmations_of d) \<longrightarrow>
         fst (executeTransaction this env h key) = Inl (Error ''Transaction already executed''))
    \<and> \<not> canConfirm a d \<and> \<not> canExecute d
    \<and> (hasCurrentSignerConfirmed a t \<longrightarrow> \<not> canConfirm a t)
    \<and> (k \<noteq> [] \<and> sign_with_key cenv k h = Inr (sg, ow) \<longrightarrow>
         snd (confirm this cenv h k) = [Fetch ''POST'' (confirmations_url this h)])"
proof -
  have "required_of d \<le> length (confirmations_of d) \<longrightarrow>
         fst (executeTransaction this env h key) = Inl (Error ''Transaction already executed'')"
    using executeTransaction_executed [OF assms(1-3) _ assms(4)] by simp
  moreover have "\<not> canConfirm a d \<and> \<not> canExecute d"
    using assms(4) by (simp add: canConfirm_def canExecute_def)
  moreover have "hasCurrentSignerConfirmed a t \<longrightarrow> \<not> canConfirm a t"
    by (simp add: canConfirm_def)
  ultimately show ?thesis
    using executeTransaction_executed_trace [OF assms] confirm_posts by blast
qed

theorem already_executed_rejected_witness:
  "isExecuted executed_tx
   \<and> fst (executeTransaction (sample_client ''http://localhost:8545'') (sample_env executed_tx)
        ''0xabc'' ''0x01'') = Inl (Error ''Transaction already executed'')
   \<and> snd (executeTransaction (sample_client ''http://localhost:8545'') (sample_env executed_tx)
        ''0xabc'' ''0x01'')
       = [Fetch ''GET'' ''http://localhost:8000/api/v1/multisig-transactions/0xabc/'']
   \<and> hasCurrentSignerConfirmed ''0xaa'' unconfirmed_tx = False
   \<and> hasCurrentSignerConfirmed ''0xbb'' unconfirmed_tx
   \<and> \<not> canConfirm ''0xbb'' unconfirmed_tx
   \<and> snd (confirm (sample_client ''http://localhost:8545'') (sample_confirm_env ok_response)
        ''0xabc'' ''0x01'')
       = [Fetch ''POST'' ''http://localhost:8000/api/v1/multisig-transactions/0xabc/confirmations/'']"
proof -
  let ?c = "sample_client ''http://localhost:8545''"
  have u: "transaction_url ?c ''0xabc''
      = ''http://localhost:8000/api/v1/multisig-transactions/0xabc/''"
    "confirmations_url ?c ''0xabc''
      = ''http://localhost:8000/api/v1/multisig-transactions/0xabc/confirmations/''"
    by (simp_all add: transaction_url_def confirmations_url_def sample_client_facts)
  have h: "hasCurrentSignerConfirmed ''0xbb'' unconfirmed_tx"
    "\<not> hasCurrentSignerConfirmed ''0xaa'' unconfirmed_tx"
    by (simp_all add: hasCurrentSignerConfirmed_def unconfirmed_tx_def sample_tx_def
        confirmations_of_def conf_BB_def toLowerCase_def lower_char_def)
  show ?thesis
    using already_executed_rejected [where env = "sample_env executed_tx" and this = ?c
        and h = "''0xabc''" and r = ok_response and d = executed_tx and key = "''0x01''"
        and a = "''0xbb''" and t = unconfirmed_tx and k = "''0x01''"
        and cenv = "sample_confirm_env ok_response"
        and sg = "''0x'' @ replicate 130 (CHR ''1'')"
        and ow = "''0xf39Fd6e51aad88F6F4ce6aB8827279cffFb92266''"]
    by (simp add: sample_env_facts sample_facts u h sample_sign)
qed

subsection \<open>The fallback transaction hash\<close>

lemma toInt32_range: "- 2147483648 \<le> toInt32 x \<and> toInt32 x < 2147483648"
proof -
  have "0 \<le> (x + 2147483648) mod 4294967296" "(x + 2147483648) mod 4294967296 < 4294967296"
    by simp_all
  then show ?thesis unfolding toInt32_def by linarith
qed

lemma simple_hash_snoc: "simple_hash (s @ [c]) = hash_step (simple_hash s) c"
  by (simp add: simple_hash_def)

lemma simple_hash_range: "- 2147483648 \<le> simple_hash s \<and> simple_hash s < 2147483648"
proof (cases s rule: rev_cases)
  case Nil
  then show ?thesis by (simp add: simple_hash_def)
next
  case (snoc ys y)
  then show ?thesis
    using toInt32_range by (simp add: simple_hash_snoc hash_step_def)
qed

lemma length_digits: "2 \<le> b \<Longrightarrow> n < b ^ k \<Longrightarrow> 0 < k \<Longrightarrow> length (digits b n) \<le> k"
proof (induction k arbitrary: n)
  case 0
  then show ?case by simp
next
  case (Suc k)
  show ?case
  proof (cases "n < b")
    case True
    then show ?thesis by (simp add: digits_base)
  next
    case False
    with Suc.prems have nb: "b \<le> n" by simp
    have "n div b < b ^ k"
      using Suc.prems by (simp add: less_mult_imp_div_less mult.commute)
    moreover have "0 < k"
    proof (rule ccontr)
      assume "\<not> 0 < k"
      with Suc.prems nb show False by simp
    qed
    ultimately have "length (digits b (n div b)) \<le> k"
      using Suc.IH Suc.prems(1) by blast
    then show ?thesis
      using Suc.prems(1) nb by (simp add: digits_rec)
  qed
qed

lemma length_toString16_hash: "length (toString16 (nat \<bar>simple_hash s\<bar>)) \<le> 8"
proof -
  have "\<bar>simple_hash s\<bar> \<le> 2147483648"
    using simple_hash_range [of s] by linarith
  then have "nat \<bar>simple_hash s\<bar> < 16 ^ 8"
    by simp
  then show ?thesis
    unfolding toString16_def by (intro length_digits) simp_all
qed

text \<open>
  Whatever the transaction and the nonce, the value of \<open>calculateSafeTxHash\<close> is
  \<open>0x\<close>, 56 zeros and at most 8 significant hex digits: it has 32 bits, not 256.
\<close>

lemma calculateSafeTxHash_shape:
  "length (calculateSafeTxHash tx n) = 66
   \<and> take 58 (calculateSafeTxHash tx n) = ''0x'' @ replicate 56 (CHR ''0'')"
proof -
  let ?d = "toString16 (nat \<bar>simple_hash (p_to tx @ p_value tx @ p_data tx
              @ toString10 (p_operation tx) @ toString10 n)\<bar>)"
  have l: "length ?d \<le> 8" by (rule length_toString16_hash)
  have e: "calculateSafeTxHash tx n = ''0x'' @ replicate (64 - length ?d) (CHR ''0'') @ ?d"
    by (simp add: calculateSafeTxHash_def Let_def padStart0_def)
  have "take 56 (replicate (64 - length ?d) (CHR ''0'') @ ?d) = replicate 56 (CHR ''0'')"
    using l by (simp add: min_def)
  with l show ?thesis by (simp add: e)
qed

lemma simple_hash_sample:
  "simple_hash ''0x4739680F1A3F6aE7E0036979E6A81D76Fd2EE6e300xa9059cbb05'' = 1445198974"
  by (simp add: simple_hash_def hash_step_def toInt32_def)

lemma toString16_sample: "toString16 1445198974 = ''5623fc7e''"
  by (simp add: toString16_def digits_rec digits_base digit_char_def)

lemma toString10_small: "toString10 0 = ''0''" "toString10 5 = ''5''"
  by (simp_all add: toString10_def digits_base digit_char_def)

text \<open>
  C1 does not hold of \<open>calculateSafeTxHash\<close>, the hash that
  \<open>proposeTransactionFallback\<close> sends as \<open>contractTransactionHash\<close>. For the sample
  proposal and nonce 5 it is the rolling hash \<open>5623fc7e\<close> of the concatenated fields,
  padded with zeros; and it is the same for another \<open>safeTxGas\<close>, a field that the
  contract's \<open>getTransactionHash\<close> hashes.
\<close>

theorem calculateSafeTxHash_ignores_safeTxGas:
  "calculateSafeTxHash sample_proposal 5
     = ''0x'' @ replicate 56 (CHR ''0'') @ ''5623fc7e''
   \<and> sample_proposal\<lparr>p_safeTxGas := 200000\<rparr> \<noteq> sample_proposal
   \<and> calculateSafeTxHash (sample_proposal\<lparr>p_safeTxGas := 200000\<rparr>) 5
       = calculateSafeTxHash sample_proposal 5"
proof -
  have "calculateSafeTxHash sample_proposal 5
     = ''0x'' @ padStart0 64 (toString16 (nat \<bar>simple_hash
         ''0x4739680F1A3F6aE7E0036979E6A81D76Fd2EE6e300xa9059cbb05''\<bar>))"
    by (simp add: calculateSafeTxHash_def sample_proposal_def toString10_small)
  then have "calculateSafeTxHash sample_proposal 5
     = ''0x'' @ replicate 56 (CHR ''0'') @ ''5623fc7e''"
    by (simp add: simple_hash_sample toString16_sample padStart0_def)
  moreover have "calculateSafeTxHash (sample_proposal\<lparr>p_safeTxGas := 200000\<rparr>) 5
       = calculateSafeTxHash sample_proposal 5"
    by (simp add: calculateSafeTxHash_def)
  moreover have "sample_proposal\<lparr>p_safeTxGas := 200000\<rparr> \<noteq> sample_proposal"
    by (simp add: sample_proposal_def)
  ultimately show ?thesis by simp
qed

subsection \<open>Saving the configuration\<close>

text \<open>
  \<open>saveConfiguration\<close> of \<open>public/app.js\<close> writes the three fields or nothing, and
  what it writes does not depend on the private key in the form.
\<close>

lemma saveConfiguration_ignores_private_key:
  "saveConfiguration (doc(''privateKey'' := k)) localStorage = saveConfiguration doc localStorage"
  by (simp add: saveConfiguration_def split: option.splits)

lemma saveConfiguration_fields:
  "saveConfiguration doc localStorage = localStorage
   \<or> (\<exists>t r a. saveConfiguration doc localStorage =
         localStorage(''safeManagerConfig'' \<mapsto>
           [(''txServiceUrl'', JString t), (''rpcUrl'', JString r), (''safeAddress'', JString a)]))"
  by (auto simp: saveConfiguration_def split: option.splits)

lemma sample_config_valid: "validateConfiguration sample_config"
  by (simp add: validateConfiguration_def sample_config_def matches_0x_hex_def startsWith_def
      is_hex_char_def known_key_2_def)

text \<open>
  C9 does not hold of \<open>saveConfiguration\<close> of the TypeScript manager: for a valid
  form it writes the whole \<open>SafeConfig\<close>, the private key and the chain id included,
  to \<open>localStorage\<close> under \<open>safeConfig\<close>.
\<close>

theorem saveConfiguration_ts_stores_private_key:
  "\<exists>m. saveConfiguration_ts sample_form \<lparr>config = None, m_localStorage = Map.empty\<rparr> = Inr m
     \<and> m_localStorage m ''safeConfig'' =
         Some [(''safeAddress'', JString ''0x5afe000000000000000000000000000000000001''),
               (''rpcUrl'', JString ''http://localhost:8545''),
               (''chainId'', JNumber 11155111),
               (''txServiceUrl'', JString ''http://localhost:8000''),
               (''privateKey'', JString (''0x'' @ known_key_2))]"
proof -
  have "saveConfiguration_ts sample_form \<lparr>config = None, m_localStorage = Map.empty\<rparr>
      = Inr \<lparr>config = Some sample_config,
             m_localStorage = [''safeConfig'' \<mapsto> json_of_config sample_config]\<rparr>"
    using sample_config_valid
    by (simp add: saveConfiguration_ts_def sample_form_def sample_config_def Let_def)
  then show ?thesis
    by (simp add: json_of_config_def sample_config_def)
qed

end
